theory Spec2Isabelle
  imports Main
begin

section \<open>JavaScript strings and arrays\<close>

text \<open>
  A JavaScript string is a sequence of UTF-16 code units and \<open>s.length\<close> counts them.
  Here a \<open>string\<close> is the list of its code units, one \<open>char\<close> each, so \<open>length\<close> is
  \<open>s.length\<close>; the development covers strings whose code units are below 256.
\<close>

text \<open>\<open>s.startsWith(p)\<close>.\<close>

fun startsWith :: "string \<Rightarrow> string \<Rightarrow> bool" where
  "startsWith s [] = True"
| "startsWith [] (p # ps) = False"
| "startsWith (c # cs) (p # ps) = (c = p \<and> startsWith cs ps)"

text \<open>\<open>s.includes(p)\<close>: \<open>p\<close> occurs in \<open>s\<close> at some position (case-sensitive).\<close>

fun str_includes :: "string \<Rightarrow> string \<Rightarrow> bool" where
  "str_includes [] p = (p = [])"
| "str_includes (c # cs) p = (startsWith (c # cs) p \<or> str_includes cs p)"

text \<open>
  \<open>s.toLowerCase()\<close> on code units below 256: the ASCII capitals and the Latin-1
  capitals (0xC0 to 0xDE but the multiplication sign 0xD7) move up by 32.
\<close>

definition lowerChar :: "char \<Rightarrow> char" where
  "lowerChar c =
     (let n = of_char c :: nat in
      if (65 \<le> n \<and> n \<le> 90) \<or> (192 \<le> n \<and> n \<le> 222 \<and> n \<noteq> 215)
      then char_of (n + 32) else c)"

definition toLowerCase :: "string \<Rightarrow> string" where
  "toLowerCase s = map lowerChar s"

text \<open>\<open>xs.some(p)\<close>.\<close>

primrec some :: "('a \<Rightarrow> bool) \<Rightarrow> 'a list \<Rightarrow> bool" where
  "some p [] = False"
| "some p (x # xs) = (p x \<or> some p xs)"

text \<open>\<open>xs.slice(0, n)\<close>: a negative \<open>n\<close> counts from the end.\<close>

definition slice0 :: "int \<Rightarrow> 'a list \<Rightarrow> 'a list" where
  "slice0 n xs = (if n < 0 then take (nat (int (length xs) + n)) xs else take (nat n) xs)"

text \<open>\<open>parts.join(sep)\<close>.\<close>

fun join :: "string \<Rightarrow> string list \<Rightarrow> string" where
  "join sep [] = []"
| "join sep [x] = x"
| "join sep (x # y # ys) = x @ sep @ join sep (y # ys)"

text \<open>
  \<open>s.trim()\<close> on code units below 256: tab, line feed, vertical tab, form feed,
  carriage return, space and the no-break space are white space.
\<close>

definition isWhiteSpace :: "char \<Rightarrow> bool" where
  "isWhiteSpace c = (of_char c \<in> {9, 10, 11, 12, 13, 32, 160 :: nat})"

definition trim :: "string \<Rightarrow> string" where
  "trim s = rev (dropWhile isWhiteSpace (rev (dropWhile isWhiteSpace s)))"

text \<open>\<open>s || ""\<close> for an optional string.\<close>

definition orEmpty :: "string option \<Rightarrow> string" where
  "orEmpty s = (case s of None \<Rightarrow> [] | Some t \<Rightarrow> t)"

text \<open>\<open>xs.every(p)\<close>.\<close>

primrec every :: "('a \<Rightarrow> bool) \<Rightarrow> 'a list \<Rightarrow> bool" where
  "every p [] = True"
| "every p (x # xs) = (p x \<and> every p xs)"

text \<open>\<open>s.substring(a, b)\<close>: both indices are clamped to the length and swapped if needed.\<close>

definition substring :: "string \<Rightarrow> nat \<Rightarrow> nat \<Rightarrow> string" where
  "substring s a b = (let lo = min a b; hi = max a b in take (hi - lo) (drop lo s))"

text \<open>
  What a rejected promise or a \<open>throw\<close> carries: an \<open>Error\<close> object with its message,
  a bare string, or another value. The clients and models called here reject with
  objects; \<open>null\<close> and \<open>undefined\<close>, of which a \<open>catch\<close> block could not read
  \<open>error.message\<close>, are not among the other values. An awaited call either resolves
  or rejects.
\<close>

datatype thrown = ErrorObject string | ThrownString string | ThrownOther

datatype 'a promise = Fulfilled 'a | Rejected thrown

text \<open>A call that is not awaited either returns a value or throws.\<close>

datatype 'a outcome = Returns 'a | Throws thrown

section \<open>code-parser.ts: parsed symbols\<close>

datatype symbol_kind = K_function | K_class | K_interface | K_type | K_const | K_variable

record ParsedSymbol =
  kind :: symbol_kind
  name :: string
  signature :: string
  implementation :: string
  jsdoc :: "string option"
  startLine :: nat
  endLine :: nat
  filePath :: string
  isExported :: bool
  parameters :: "string list option"
  returnType :: "string option"

subsection \<open>The syntax tree of the TypeScript compiler\<close>

text \<open>
  The parser of the TypeScript compiler is a library; its tree is modelled by what
  \<open>code-parser.ts\<close> reads of it. A node has a text range in the source file:
  \<open>getFullStart()\<close> (the leading trivia included), \<open>getStart()\<close> and \<open>getEnd()\<close>;
  \<open>getText()\<close> is the source text between the last two.
\<close>

record range =
  fullStart :: nat
  start :: nat
  finish :: nat

datatype modifier = ExportKeyword | DefaultKeyword | OtherModifier

text \<open>A parameter: its own range, the range of its name, the range of its type if any.\<close>

record ParameterDeclaration =
  p_range :: range
  p_name :: range
  p_type :: "range option"

text \<open>A declarator of a variable statement: the range of its name and of its type.\<close>

record VariableDeclaration =
  v_name :: range
  v_type :: "range option"

text \<open>
  The five kinds of node \<open>visit\<close> tells apart, with the properties the parse functions
  read (\<open>modifiers\<close>, \<open>name\<close>, \<open>parameters\<close>, \<open>type\<close>, \<open>heritageClauses\<close>, the
  \<open>Const\<close> flag and the declarations of \<open>declarationList\<close>), and every other kind.
\<close>

datatype ts_syntax =
    FunctionDeclaration "modifier list" "range option" "ParameterDeclaration list" "range option"
  | ClassDeclaration "modifier list" "range option" "range list option"
  | InterfaceDeclaration "modifier list" range
  | TypeAliasDeclaration "modifier list" range
  | VariableStatement "modifier list" bool "VariableDeclaration list"
  | OtherSyntax

text \<open>A node: its kind, its range, and its children in the order of \<open>ts.forEachChild\<close>.\<close>

datatype node = Node ts_syntax range "node list"

definition getText :: "string \<Rightarrow> range \<Rightarrow> string" where
  "getText fullText r = substring fullText (start r) (finish r)"

text \<open>
  Line starts as the compiler computes them: a line begins after a line feed, after a
  carriage return, and after the pair of both. \<open>lineOf\<close> is the \<open>line\<close> of
  \<open>getLineAndCharacterOfPosition\<close>: the number of line starts after the first that are
  not beyond the position.
\<close>

fun lineStarts :: "string \<Rightarrow> nat \<Rightarrow> nat list" where
  "lineStarts [] k = []"
| "lineStarts [c] k = (if c = CHR 0x0A \<or> c = CHR 0x0D then [k + 1] else [])"
| "lineStarts (c # d # cs) k =
     (if c = CHR 0x0D \<and> d = CHR 0x0A then (k + 2) # lineStarts cs (k + 2)
      else if c = CHR 0x0A \<or> c = CHR 0x0D then (k + 1) # lineStarts (d # cs) (k + 1)
      else lineStarts (d # cs) (k + 1))"

definition lineOf :: "string \<Rightarrow> nat \<Rightarrow> nat" where
  "lineOf fullText position = length (filter (\<lambda>s. s \<le> position) (lineStarts fullText 0))"

subsection \<open>extractJSDoc\<close>

text \<open>
  The regular expression \<open>/\/\*\*([\s\S]*?)\*\/\s*$/\<close>: the match begins at the first
  \<open>/**\<close> after which some \<open>*/\<close> is followed by white space only up to the end, and runs
  to the end of the text.
\<close>

fun closesAtEnd :: "string \<Rightarrow> bool" where
  "closesAtEnd [] = False"
| "closesAtEnd (c # cs) =
     ((startsWith (c # cs) ''*/'' \<and> every isWhiteSpace (drop 1 cs)) \<or> closesAtEnd cs)"

fun jsdocMatch :: "string \<Rightarrow> string option" where
  "jsdocMatch [] = None"
| "jsdocMatch (c # cs) =
     (if startsWith (c # cs) ''/**'' \<and> closesAtEnd (drop 2 cs) then Some (c # cs)
      else jsdocMatch cs)"

definition extractJSDoc :: "string \<Rightarrow> range \<Rightarrow> string option" where
  "extractJSDoc fullText r =
     (let nodeStart = fullStart r;
          textBefore = substring fullText (nodeStart - 500) nodeStart
      in case jsdocMatch textBefore of
           Some m \<Rightarrow> Some (trim m)
         | None \<Rightarrow> None)"

subsection \<open>The parse functions\<close>

text \<open>
  \<open>isExported\<close> of the source, named apart from the field of \<open>ParsedSymbol\<close>: some
  modifier is \<open>export\<close> or \<open>default\<close>.
\<close>

definition isExportedNode :: "modifier list \<Rightarrow> bool" where
  "isExportedNode modifiers =
     some (\<lambda>modifier. modifier = ExportKeyword \<or> modifier = DefaultKeyword) modifiers"

definition extractParameters :: "string \<Rightarrow> ParameterDeclaration list \<Rightarrow> string list" where
  "extractParameters fullText params =
     map (\<lambda>param.
            getText fullText (p_name param) @ '': '' @
            (case p_type param of Some t \<Rightarrow> getText fullText t | None \<Rightarrow> ''any''))
         params"

definition extractReturnType :: "string \<Rightarrow> range option \<Rightarrow> string" where
  "extractReturnType fullText ty = (case ty of Some t \<Rightarrow> getText fullText t | None \<Rightarrow> ''any'')"

definition getLineNumbers :: "string \<Rightarrow> range \<Rightarrow> nat \<times> nat" where
  "getLineNumbers fullText r = (lineOf fullText (start r) + 1, lineOf fullText (finish r) + 1)"

definition parseFunction ::
  "string \<Rightarrow> string \<Rightarrow> range \<Rightarrow> modifier list \<Rightarrow> range option \<Rightarrow> ParameterDeclaration list \<Rightarrow>
   range option \<Rightarrow> ParsedSymbol option" where
  "parseFunction fullText path r modifiers nameNode params ty =
     (case nameNode of
        None \<Rightarrow> None
      | Some n \<Rightarrow>
          let nm = getText fullText n;
              lines = getLineNumbers fullText r;
              paramTexts = join '', '' (map (\<lambda>p. getText fullText (p_range p)) params)
          in Some
            \<lparr>kind = K_function,
             name = nm,
             signature = ''function '' @ nm @ ''('' @ paramTexts @ '')'' @
               (case ty of Some t \<Rightarrow> '': '' @ getText fullText t | None \<Rightarrow> []),
             implementation = getText fullText r,
             jsdoc = extractJSDoc fullText r,
             startLine = fst lines,
             endLine = snd lines,
             filePath = path,
             isExported = isExportedNode modifiers,
             parameters = Some (extractParameters fullText params),
             returnType = Some (extractReturnType fullText ty)\<rparr>)"

definition parseClass ::
  "string \<Rightarrow> string \<Rightarrow> range \<Rightarrow> modifier list \<Rightarrow> range option \<Rightarrow> range list option \<Rightarrow>
   ParsedSymbol option" where
  "parseClass fullText path r modifiers nameNode heritageClauses =
     (case nameNode of
        None \<Rightarrow> None
      | Some n \<Rightarrow>
          let nm = getText fullText n;
              lines = getLineNumbers fullText r;
              heritage = (case heritageClauses of
                            None \<Rightarrow> []
                          | Some clauses \<Rightarrow> join '' '' (map (getText fullText) clauses))
          in Some
            \<lparr>kind = K_class,
             name = nm,
             signature = ''class '' @ nm @ (if heritage \<noteq> [] then '' '' @ heritage else []),
             implementation = getText fullText r,
             jsdoc = extractJSDoc fullText r,
             startLine = fst lines,
             endLine = snd lines,
             filePath = path,
             isExported = isExportedNode modifiers,
             parameters = None,
             returnType = None\<rparr>)"

definition parseInterface ::
  "string \<Rightarrow> string \<Rightarrow> range \<Rightarrow> modifier list \<Rightarrow> range \<Rightarrow> ParsedSymbol option" where
  "parseInterface fullText path r modifiers nameNode =
     (let nm = getText fullText nameNode;
          lines = getLineNumbers fullText r
      in Some
        \<lparr>kind = K_interface,
         name = nm,
         signature = ''interface '' @ nm,
         implementation = getText fullText r,
         jsdoc = extractJSDoc fullText r,
         startLine = fst lines,
         endLine = snd lines,
         filePath = path,
         isExported = isExportedNode modifiers,
         parameters = None,
         returnType = None\<rparr>)"

definition parseTypeAlias ::
  "string \<Rightarrow> string \<Rightarrow> range \<Rightarrow> modifier list \<Rightarrow> range \<Rightarrow> ParsedSymbol option" where
  "parseTypeAlias fullText path r modifiers nameNode =
     (let nm = getText fullText nameNode;
          lines = getLineNumbers fullText r
      in Some
        \<lparr>kind = K_type,
         name = nm,
         signature = ''type '' @ nm,
         implementation = getText fullText r,
         jsdoc = extractJSDoc fullText r,
         startLine = fst lines,
         endLine = snd lines,
         filePath = path,
         isExported = isExportedNode modifiers,
         parameters = None,
         returnType = None\<rparr>)"

text \<open>One symbol per declarator, all with the text and the lines of the whole statement.\<close>

definition parseVariable ::
  "string \<Rightarrow> string \<Rightarrow> range \<Rightarrow> modifier list \<Rightarrow> bool \<Rightarrow> VariableDeclaration list \<Rightarrow>
   ParsedSymbol list" where
  "parseVariable fullText path r modifiers isConst declarations =
     map (\<lambda>declaration.
            let nm = getText fullText (v_name declaration);
                lines = getLineNumbers fullText r;
                k = (if isConst then K_const else K_variable)
            in \<lparr>kind = k,
                name = nm,
                signature = (if isConst then ''const'' else ''variable'') @ '' '' @ nm @
                  (case v_type declaration of
                     Some t \<Rightarrow> '': '' @ getText fullText t
                   | None \<Rightarrow> []),
                implementation = getText fullText r,
                jsdoc = extractJSDoc fullText r,
                startLine = fst lines,
                endLine = snd lines,
                filePath = path,
                isExported = isExportedNode modifiers,
                parameters = None,
                returnType = None\<rparr>)
         declarations"

text \<open>\<open>if (symbol) symbols.push(symbol)\<close>.\<close>

definition pushed :: "ParsedSymbol option \<Rightarrow> ParsedSymbol list" where
  "pushed symbol = (case symbol of None \<Rightarrow> [] | Some s \<Rightarrow> [s])"

text \<open>
  \<open>visit\<close> pushes the symbols of the node, then visits the children in order; the list
  returned here is what it appends to its accumulator.
\<close>

fun visit :: "string \<Rightarrow> string \<Rightarrow> node \<Rightarrow> ParsedSymbol list" where
  "visit fullText path (Node syn r children) =
     (case syn of
        FunctionDeclaration modifiers nameNode params ty \<Rightarrow>
          pushed (parseFunction fullText path r modifiers nameNode params ty)
      | ClassDeclaration modifiers nameNode heritageClauses \<Rightarrow>
          pushed (parseClass fullText path r modifiers nameNode heritageClauses)
      | InterfaceDeclaration modifiers nameNode \<Rightarrow>
          pushed (parseInterface fullText path r modifiers nameNode)
      | TypeAliasDeclaration modifiers nameNode \<Rightarrow>
          pushed (parseTypeAlias fullText path r modifiers nameNode)
      | VariableStatement modifiers isConst declarations \<Rightarrow>
          parseVariable fullText path r modifiers isConst declarations
      | OtherSyntax \<Rightarrow> [])
     @ concat (map (visit fullText path) children)"

record ParseResult =
  pr_symbols :: "ParsedSymbol list"
  pr_totalSymbols :: nat
  pr_filePath :: string

text \<open>
  \<open>ts.createSourceFile\<close>, the compiler's parser, is a parameter: from the file name and
  the text it gives the tree of the source file, or it throws (\<open>None\<close>).
\<close>

type_synonym parser = "string \<Rightarrow> string \<Rightarrow> node option"

definition parseSourceFile :: "parser \<Rightarrow> string \<Rightarrow> string \<Rightarrow> ParseResult option" where
  "parseSourceFile createSourceFile path content =
     (case createSourceFile path content of
        None \<Rightarrow> None
      | Some sourceFile \<Rightarrow>
          let symbols = visit content path sourceFile
          in Some \<lparr>pr_symbols = symbols, pr_totalSymbols = length symbols, pr_filePath = path\<rparr>)"

text \<open>A file whose parse throws is logged and gives no symbol.\<close>

fun parseSourceFiles :: "parser \<Rightarrow> (string \<times> string) list \<Rightarrow> ParsedSymbol list" where
  "parseSourceFiles createSourceFile [] = []"
| "parseSourceFiles createSourceFile ((path, content) # files) =
     (case parseSourceFile createSourceFile path content of
        Some result \<Rightarrow> pr_symbols result
      | None \<Rightarrow> [])
     @ parseSourceFiles createSourceFile files"

subsection \<open>filterRelevantSymbols\<close>

text \<open>
  The callback of \<open>symbols.filter\<close>: four early \<open>return false\<close> in the order of the
  source, then \<open>return true\<close>.
\<close>

definition keepSymbol :: "ParsedSymbol \<Rightarrow> bool" where
  "keepSymbol symbol =
     (if length (implementation symbol) < 50 then False
      else if length (implementation symbol) > 10000 then False
      else if str_includes (filePath symbol) ''.test.'' \<or>
              str_includes (filePath symbol) ''.spec.'' \<or>
              str_includes (filePath symbol) ''__tests__'' then False
      else if str_includes (filePath symbol) ''mock'' \<or>
              str_includes (filePath symbol) ''fixture'' \<or>
              str_includes (filePath symbol) ''__mocks__'' then False
      else True)"

definition filterRelevantSymbols :: "ParsedSymbol list \<Rightarrow> ParsedSymbol list" where
  "filterRelevantSymbols symbols = filter keepSymbol symbols"

subsection \<open>calculateRelevanceScore\<close>

definition importantKeywords :: "string list" where
  "importantKeywords = [''fetch'', ''request'', ''http'', ''api'', ''execute'', ''call'']"

text \<open>
  \<open>symbol.jsdoc && symbol.jsdoc.length > 20\<close>: an absent doc comment is falsy, and so is
  the empty one.
\<close>

definition hasJSDoc :: "ParsedSymbol \<Rightarrow> bool" where
  "hasJSDoc symbol = (case jsdoc symbol of None \<Rightarrow> False | Some d \<Rightarrow> d \<noteq> [] \<and> length d > 20)"

definition calculateRelevanceScore :: "ParsedSymbol \<Rightarrow> int" where
  "calculateRelevanceScore symbol =
     (let score = 0;
          score = (if isExported symbol then score + 10 else score);
          score = (if hasJSDoc symbol then score + 5 else score);
          score = (if \<not> startsWith (name symbol) ''_'' then score + 3 else score);
          score = (if length (implementation symbol) > 100 \<and>
                      length (implementation symbol) < 2000 then score + 2 else score);
          score = (if str_includes (implementation symbol) ''async'' \<or>
                      str_includes (implementation symbol) ''await'' then score + 2 else score);
          score = (if str_includes (implementation symbol) ''try'' \<or>
                      str_includes (implementation symbol) ''catch'' \<or>
                      str_includes (implementation symbol) ''throw'' then score + 1 else score);
          score = (if some (\<lambda>keyword. str_includes (toLowerCase (implementation symbol)) keyword)
                        importantKeywords then score + 2 else score)
      in score)"

subsection \<open>createSymbolSearchText\<close>

definition kindText :: "symbol_kind \<Rightarrow> string" where
  "kindText k =
     (case k of
        K_function \<Rightarrow> ''function'' | K_class \<Rightarrow> ''class'' | K_interface \<Rightarrow> ''interface''
      | K_type \<Rightarrow> ''type'' | K_const \<Rightarrow> ''const'' | K_variable \<Rightarrow> ''variable'')"

definition createSymbolSearchText :: "ParsedSymbol \<Rightarrow> string" where
  "createSymbolSearchText symbol =
     join [CHR 0x0A, CHR 0x0A]
       ((case jsdoc symbol of Some d \<Rightarrow> (if d \<noteq> [] then [d] else []) | None \<Rightarrow> [])
        @ [signature symbol, implementation symbol,
           ''File: '' @ filePath symbol, ''Type: '' @ kindText (kind symbol)]
        @ (case parameters symbol of
             Some ps \<Rightarrow> (if length ps > 0 then [''Parameters: '' @ join '', '' ps] else [])
           | None \<Rightarrow> [])
        @ (case returnType symbol of
             Some t \<Rightarrow> (if t \<noteq> [] then [''Returns: '' @ t] else [])
           | None \<Rightarrow> []))"

section \<open>source-fetcher.ts\<close>

record SourceFile =
  sf_path :: string
  sf_content :: string
  sf_size :: nat

datatype source_strategy = S_github | S_tarball | S_unpkg

record SourceCodeResult =
  files :: "SourceFile list"
  strategy :: source_strategy
  totalSize :: nat

text \<open>
  What \<open>await fetch(url)\<close> and the reading of the body give: the call throws, the
  response has \<open>ok = false\<close> (with its status), or the response is fine and has a body.
\<close>

datatype 'a response = FetchThrows | NotOk nat | Ok 'a

text \<open>
  \<open>package.json\<close> as the indexer reads it. The \<open>repository\<close> field is a string or an
  object with an optional \<open>url\<close>.
\<close>

datatype repository = RepositoryString string | RepositoryObject "string option"

record PackageJson =
  pj_name :: string
  pj_version :: string
  pj_description :: "string option"
  pj_keywords :: "string list option"
  pj_repository :: "repository option"

text \<open>
  The network. \<open>fetchFromGitHub\<close> and \<open>fetchFromNpmTarball\<close> talk to GitHub and to the
  registry and catch every failure, returning \<open>null\<close>; what they return for a repository
  URL, and for a package name and version, is given. \<open>fetchText\<close> and \<open>fetchJson\<close> give
  what fetching a URL and reading the body as text, or as JSON, does.
\<close>

record Network =
  fetchFromGitHub :: "string \<Rightarrow> SourceCodeResult option"
  fetchFromNpmTarball :: "string \<Rightarrow> string \<Rightarrow> SourceCodeResult option"
  fetchText :: "string \<Rightarrow> string response"
  fetchJson :: "string \<Rightarrow> PackageJson response"

definition commonPaths :: "string list" where
  "commonPaths = [''/src/index.ts'', ''/src/index.js'', ''/src/client.ts'', ''/src/main.ts'',
     ''/lib/index.js'', ''/lib/main.js'']"

definition unpkgUrl :: "string \<Rightarrow> string \<Rightarrow> string \<Rightarrow> string" where
  "unpkgUrl packageName version path = ''https://unpkg.com/'' @ packageName @ ''@'' @ version @ path"

text \<open>
  The loop of \<open>fetchFromUnpkg\<close> over \<open>commonPaths\<close>, on the pair of \<open>files\<close> and
  \<open>totalSize\<close>: a path whose fetch throws or is not \<open>ok\<close> is skipped.
\<close>

fun probePaths ::
  "Network \<Rightarrow> string \<Rightarrow> string \<Rightarrow> string list \<Rightarrow> SourceFile list \<times> nat \<Rightarrow>
   SourceFile list \<times> nat" where
  "probePaths net packageName version [] (fs, bytes) = (fs, bytes)"
| "probePaths net packageName version (path # paths) (fs, bytes) =
     (case fetchText net (unpkgUrl packageName version path) of
        Ok content \<Rightarrow>
          probePaths net packageName version paths
            (fs @ [\<lparr>sf_path = path, sf_content = content, sf_size = length content\<rparr>],
             bytes + length content)
      | _ \<Rightarrow> probePaths net packageName version paths (fs, bytes))"

definition fetchFromUnpkg :: "Network \<Rightarrow> string \<Rightarrow> string \<Rightarrow> SourceCodeResult option" where
  "fetchFromUnpkg net packageName version =
     (case probePaths net packageName version commonPaths ([], 0) of
        (fs, bytes) \<Rightarrow>
          if length fs = 0 then None
          else Some \<lparr>files = fs, strategy = S_unpkg, totalSize = bytes\<rparr>)"

text \<open>\<open>result && result.files.length > 0\<close>.\<close>

definition hasFiles :: "SourceCodeResult option \<Rightarrow> bool" where
  "hasFiles result = (case result of None \<Rightarrow> False | Some r \<Rightarrow> length (files r) > 0)"

text \<open>
  \<open>fetchSourceCode\<close> with the list of the strategies it ran, in order. \<open>if (repoUrl)\<close>
  holds for a URL that is present and not empty; when it does not hold, GitHub is not
  asked and there is no GitHub result.
\<close>

definition fetchSourceCode ::
  "Network \<Rightarrow> string \<Rightarrow> string \<Rightarrow> string option \<Rightarrow>
   SourceCodeResult option \<times> source_strategy list" where
  "fetchSourceCode net packageName version repoUrl =
     (let githubResult =
            (case repoUrl of
               None \<Rightarrow> None
             | Some url \<Rightarrow> if url \<noteq> [] then fetchFromGitHub net url else None);
          ran =
            (case repoUrl of
               None \<Rightarrow> []
             | Some url \<Rightarrow> if url \<noteq> [] then [S_github] else [])
      in if hasFiles githubResult then (githubResult, ran)
         else
           (let tarballResult = fetchFromNpmTarball net packageName version
            in if hasFiles tarballResult then (tarballResult, ran @ [S_tarball])
               else
                 (let unpkgResult = fetchFromUnpkg net packageName version
                  in if hasFiles unpkgResult then (unpkgResult, ran @ [S_tarball, S_unpkg])
                     else (None, ran @ [S_tarball, S_unpkg]))))"

section \<open>fetcher.ts\<close>

record PackageData =
  pkgJson :: PackageJson
  readme :: string
  dts :: string

text \<open>
  \<open>fetchPackage\<close> settles the three fetches with \<open>Promise.allSettled\<close>, which never
  rejects: a \<open>package.json\<close> that could not be fetched (the fetch throws, or the response
  is not \<open>ok\<close> and the callback throws) is replaced by the placeholder with the requested
  name and the version \<open>unknown\<close>, a README or a declaration file that could not be
  fetched by the empty string. Nothing in the \<open>try\<close> block throws, so the promise is
  always fulfilled.
\<close>

definition fetchPackage :: "Network \<Rightarrow> string \<Rightarrow> string \<Rightarrow> PackageData promise" where
  "fetchPackage net pkg version =
     (let base = ''https://unpkg.com/'' @ pkg @ ''@'' @ version
      in Fulfilled
        \<lparr>pkgJson =
           (case fetchJson net (base @ ''/package.json'') of
              Ok json \<Rightarrow> json
            | _ \<Rightarrow> \<lparr>pj_name = pkg, pj_version = ''unknown'', pj_description = None,
                     pj_keywords = None, pj_repository = None\<rparr>),
         readme = (case fetchText net (base @ ''/README.md'') of Ok t \<Rightarrow> t | _ \<Rightarrow> []),
         dts = (case fetchText net (base @ ''/dist/index.d.ts'') of Ok t \<Rightarrow> t | _ \<Rightarrow> [])\<rparr>)"

record ExportEntry =
  ex_kind :: string
  ex_name :: string
  ex_signature :: "string option"
  ex_jsdoc :: "string option"

definition prepareReadmeContent :: "string \<Rightarrow> string list \<Rightarrow> string" where
  "prepareReadmeContent readmeText codeBlocks =
     readmeText @
     (if length codeBlocks > 0
      then [CHR 0x0A, CHR 0x0A] @ ''## Code Examples'' @ [CHR 0x0A, CHR 0x0A] @
           join [CHR 0x0A, CHR 0x0A] codeBlocks
      else [])"

section \<open>indexer.ts\<close>

text \<open>
  An element of a document's \<open>symbols[]\<close>, or the \<open>_source\<close> of a nested inner hit. A
  field that is absent, or that the reader did not ask for, is \<open>None\<close>.
\<close>

record IndexedSymbol =
  es_name :: string
  es_kind :: string
  es_file_path :: string
  es_implementation :: "string option"
  es_is_exported :: bool
  es_relevance_score :: "int option"
  es_jsdoc :: "string option"
  es_signature :: "string option"
  es_start_line :: "nat option"
  es_end_line :: "nat option"
  es_parameters :: "string list option"
  es_return_type :: "string option"

record PackageDocument =
  pd_name :: string
  pd_version :: string
  pd_description :: string
  pd_keywords :: "string list"
  pd_readme_content :: string
  pd_repository_url :: "string option"
  pd_source_strategy :: string
  pd_exports :: "ExportEntry list"
  pd_symbols :: "IndexedSymbol list"
  pd_source_code_content :: string
  pd_code_examples :: string
  pd_total_symbols :: nat
  pd_total_source_files :: nat
  pd_total_source_size :: nat

text \<open>
  What the indexer works with besides the network: the compiler's parser; the two
  regular-expression scanners of \<open>fetcher.ts\<close>, \<open>extractExportsSimple\<close> and
  \<open>extractCodeBlocks\<close>, taken as given functions (nothing below depends on what they
  return, and they do not throw); and \<open>client.index\<close>, the write of a document under an
  id, which resolves or rejects.
\<close>

record Environment =
  network :: Network
  createSourceFile :: parser
  extractExportsSimple :: "string \<Rightarrow> ExportEntry list"
  extractCodeBlocks :: "string \<Rightarrow> string list"
  indexDocument :: "string \<Rightarrow> PackageDocument \<Rightarrow> unit promise"

definition strategyText :: "source_strategy \<Rightarrow> string" where
  "strategyText s = (case s of S_github \<Rightarrow> ''github'' | S_tarball \<Rightarrow> ''tarball'' | S_unpkg \<Rightarrow> ''unpkg'')"

text \<open>The object literal a parsed symbol is stored as.\<close>

definition toIndexedSymbol :: "ParsedSymbol \<Rightarrow> IndexedSymbol" where
  "toIndexedSymbol symbol =
     \<lparr>es_name = name symbol,
      es_kind = kindText (kind symbol),
      es_file_path = filePath symbol,
      es_implementation = Some (implementation symbol),
      es_is_exported = isExported symbol,
      es_relevance_score = Some (calculateRelevanceScore symbol),
      es_jsdoc = jsdoc symbol,
      es_signature = Some (signature symbol),
      es_start_line = Some (startLine symbol),
      es_end_line = Some (endLine symbol),
      es_parameters = parameters symbol,
      es_return_type = returnType symbol\<rparr>"

text \<open>
  \<open>typeof pkgJson.repository === "string" ? pkgJson.repository : pkgJson.repository?.url\<close>.
\<close>

definition repositoryUrl :: "PackageJson \<Rightarrow> string option" where
  "repositoryUrl json =
     (case pj_repository json of
        None \<Rightarrow> None
      | Some (RepositoryString url) \<Rightarrow> Some url
      | Some (RepositoryObject url) \<Rightarrow> url)"

text \<open>
  The document \<open>indexPackage\<close> assembles from the package data (steps 2 to 6), with its
  id \<open>name@version\<close>.
\<close>

definition buildDocument :: "Environment \<Rightarrow> string \<Rightarrow> PackageData \<Rightarrow> string \<times> PackageDocument" where
  "buildDocument env packageName d =
     (let exports = extractExportsSimple env (dts d);
          codeBlocks = extractCodeBlocks env (readme d);
          readmeContent = prepareReadmeContent (readme d) codeBlocks;
          repoUrl = repositoryUrl (pkgJson d);
          sourceCode = fst (fetchSourceCode (network env) packageName (pj_version (pkgJson d)) repoUrl);
          (symbols, sourceStrategy, totalSourceFiles, totalSourceSize) =
            (case sourceCode of
               None \<Rightarrow> ([], ''none'', 0, 0)
             | Some sc \<Rightarrow>
                 if length (files sc) > 0
                 then (filterRelevantSymbols
                         (parseSourceFiles (createSourceFile env)
                            (map (\<lambda>f. (sf_path f, sf_content f)) (files sc))),
                       strategyText (strategy sc), length (files sc), totalSize sc)
                 else ([], ''none'', 0, 0));
          sourceCodeContent =
            join ([CHR 0x0A, CHR 0x0A] @ ''---'' @ [CHR 0x0A, CHR 0x0A])
              (map createSymbolSearchText symbols);
          doc =
            \<lparr>pd_name = pj_name (pkgJson d),
             pd_version = pj_version (pkgJson d),
             pd_description = orEmpty (pj_description (pkgJson d)),
             pd_keywords = (case pj_keywords (pkgJson d) of None \<Rightarrow> [] | Some ks \<Rightarrow> ks),
             pd_readme_content = readmeContent,
             pd_repository_url = repoUrl,
             pd_source_strategy = sourceStrategy,
             pd_exports = exports,
             pd_symbols = map toIndexedSymbol symbols,
             pd_source_code_content = sourceCodeContent,
             pd_code_examples = join [CHR 0x0A, CHR 0x0A] codeBlocks,
             pd_total_symbols = length symbols,
             pd_total_source_files = totalSourceFiles,
             pd_total_source_size = totalSourceSize\<rparr>
      in (pd_name doc @ ''@'' @ pd_version doc, doc))"

text \<open>
  \<open>indexPackage\<close>: whatever is thrown inside is logged and thrown again. It gives the
  outcome together with the write it submitted, if it came that far.
\<close>

definition indexPackage ::
  "Environment \<Rightarrow> string \<Rightarrow> string \<Rightarrow> unit promise \<times> (string \<times> PackageDocument) option" where
  "indexPackage env packageName version =
     (case fetchPackage (network env) packageName version of
        Rejected e \<Rightarrow> (Rejected e, None)
      | Fulfilled d \<Rightarrow>
          (case buildDocument env packageName d of
             (docId, doc) \<Rightarrow>
               (case indexDocument env docId doc of
                  Rejected e \<Rightarrow> (Rejected e, Some (docId, doc))
                | Fulfilled u \<Rightarrow> (Fulfilled (), Some (docId, doc)))))"

text \<open>
  \<open>indexPackages\<close>: the loop over the packages on the counters \<open>successful\<close> and
  \<open>failed\<close>, which the summary prints. Each package is indexed at version \<open>latest\<close>.
\<close>

fun indexLoop :: "Environment \<Rightarrow> string list \<Rightarrow> nat \<times> nat \<Rightarrow> nat \<times> nat" where
  "indexLoop env [] (successful, failed) = (successful, failed)"
| "indexLoop env (pkg # packages) (successful, failed) =
     (case fst (indexPackage env pkg ''latest'') of
        Fulfilled u \<Rightarrow> indexLoop env packages (successful + 1, failed)
      | Rejected e \<Rightarrow> indexLoop env packages (successful, failed + 1))"

definition indexPackages :: "Environment \<Rightarrow> string list \<Rightarrow> nat \<times> nat" where
  "indexPackages env packages = indexLoop env packages (0, 0)"

section \<open>answer.ts: context retrieval\<close>

text \<open>
  A value of type \<open>unknown\<close>, as far as \<open>extractTextField\<close> tells values apart. A
  number is an integer here.
\<close>

datatype js_value =
    JUndefined
  | JNull
  | JBool bool
  | JNumber int
  | JString string
  | JArray "js_value list"
  | JObject "(string \<times> js_value) list"

text \<open>\<open>!value\<close>.\<close>

fun falsy :: "js_value \<Rightarrow> bool" where
  "falsy JUndefined = True"
| "falsy JNull = True"
| "falsy (JBool b) = (\<not> b)"
| "falsy (JNumber n) = (n = 0)"
| "falsy (JString s) = (s = [])"
| "falsy (JArray vs) = False"
| "falsy (JObject fs) = False"

text \<open>The decimal digits of a natural number, and the text of an integer.\<close>

function digits :: "nat \<Rightarrow> string" where
  "digits n = (if n < 10 then [char_of (48 + n)] else digits (n div 10) @ [char_of (48 + n mod 10)])"
  by pat_completeness auto
termination
  by (relation "measure (\<lambda>n. n)") auto

declare digits.simps [simp del]

definition numberText :: "int \<Rightarrow> string" where
  "numberText i = (if i < 0 then ''-'' @ digits (nat (- i)) else digits (nat i))"

text \<open>
  The text \<open>Array.prototype.join\<close> puts for an element: nothing for \<open>null\<close> and
  \<open>undefined\<close>, the element itself for a string, and \<open>String(element)\<close> otherwise (an
  array is joined by commas, element by element in the same way; an object without a
  \<open>toString\<close> of its own gives \<open>[object Object]\<close>).
\<close>

fun elementText :: "js_value \<Rightarrow> string" where
  "elementText JUndefined = []"
| "elementText JNull = []"
| "elementText (JBool b) = (if b then ''true'' else ''false'')"
| "elementText (JNumber n) = numberText n"
| "elementText (JString s) = s"
| "elementText (JArray vs) = join '','' (map elementText vs)"
| "elementText (JObject fs) = ''[object Object]''"

text \<open>
  The \<open>TypeError\<close> of reading the property \<open>text\<close> of \<open>null\<close> or \<open>undefined\<close>, with the
  message of the V8 engine.
\<close>

definition cannotReadText :: "string \<Rightarrow> thrown" where
  "cannotReadText what =
     ErrorObject (''Cannot read properties of '' @ what @ '' (reading '' @ [CHR 0x27] @ ''text'' @
                  [CHR 0x27] @ '')'')"

text \<open>
  \<open>chunk.text || ""\<close> for an element of \<open>obj.chunks\<close>, as the text \<open>join\<close> then puts for
  it. Reading \<open>text\<close> of \<open>null\<close> or \<open>undefined\<close> throws; a primitive or an array has no
  such property; a \<open>text\<close> that is falsy gives the empty string, and one that is truthy
  is kept whatever its type.
\<close>

fun chunkText :: "js_value \<Rightarrow> string outcome" where
  "chunkText JUndefined = Throws (cannotReadText ''undefined'')"
| "chunkText JNull = Throws (cannotReadText ''null'')"
| "chunkText (JObject fs) =
     (case map_of fs ''text'' of
        None \<Rightarrow> Returns []
      | Some v \<Rightarrow> if falsy v then Returns [] else Returns (elementText v))"
| "chunkText v = Returns []"

text \<open>
  \<open>xs.map(f)\<close> for a callback that may throw: the callbacks run in order and the first
  throw leaves the \<open>map\<close>.
\<close>

fun mapped :: "'a outcome list \<Rightarrow> 'a list outcome" where
  "mapped [] = Returns []"
| "mapped (Throws e # rs) = Throws e"
| "mapped (Returns x # rs) =
     (case mapped rs of Throws e \<Rightarrow> Throws e | Returns xs \<Rightarrow> Returns (x # xs))"

text \<open>
  The first test, \<open>if (!value) return ""\<close>, gives the empty string for \<open>undefined\<close>,
  \<open>null\<close>, \<open>false\<close>, 0 and the empty string; the last equation covers them with the
  truthy numbers and booleans, which reach the final \<open>return ""\<close>. The function is not
  inside any \<open>try\<close>: a throw of \<open>chunk.text\<close> leaves it.
\<close>

fun extractTextField :: "js_value \<Rightarrow> string outcome" where
  "extractTextField (JString s) = Returns s"
| "extractTextField (JArray vs) =
     (case mapped (map (\<lambda>part. case part of JString t \<Rightarrow> Returns t
                                 | _ \<Rightarrow> extractTextField part) vs) of
        Throws e \<Rightarrow> Throws e
      | Returns parts \<Rightarrow> Returns (join [CHR 0x0A] parts))"
| "extractTextField (JObject fs) =
     (case map_of fs ''text'' of
        Some (JString t) \<Rightarrow> Returns t
      | _ \<Rightarrow> (case map_of fs ''chunks'' of
                Some (JArray chunks) \<Rightarrow>
                  (case mapped (map chunkText chunks) of
                     Throws e \<Rightarrow> Throws e
                   | Returns texts \<Rightarrow> Returns (join [CHR 0x0A] texts))
              | _ \<Rightarrow> Returns []))"
| "extractTextField v = Returns []"

record SymbolMatch =
  sm_name :: string
  sm_kind :: string
  sm_file_path :: string
  snippet :: string
  sm_is_exported :: bool
  sm_relevance_score :: "int option"
  sm_implementation :: "string option"
  sm_jsdoc :: "string option"
  sm_signature :: "string option"

text \<open>
  \<open>ElasticDoc\<close>. Name and version are optional here because the fallback fetch can
  leave the empty object \<open>{}\<close> as the document source.
\<close>

record ElasticDoc =
  doc_name :: "string option"
  doc_version :: "string option"
  doc_description :: "string option"
  readme_content :: js_value
  code_examples :: js_value
  doc_exports :: "ExportEntry list option"

text \<open>The \<open>_source\<close> of a get-by-id: the document fields and \<open>symbols\<close> (absent: \<open>None\<close>).\<close>

record FullDoc =
  fd_doc :: ElasticDoc
  fd_symbols :: "IndexedSymbol list option"

text \<open>The first hit of the package search: its id, its source, its nested inner hits.\<close>

record SearchHit =
  hit_id :: string
  hit_source :: ElasticDoc
  hit_inner_hits :: "IndexedSymbol list"

text \<open>
  The search index as the two functions use it. \<open>searchPackage packageName query
  maxSnippets\<close> is the search of \<open>findRelevantCode\<close> and gives \<open>hits.hits[0]\<close>;
  \<open>searchDoc docId query maxSnippets\<close> is the search of \<open>fetchSymbolContext\<close> and gives
  the inner hits of the first hit (none: the empty list); \<open>getDoc id\<close> is the get-by-id
  and gives \<open>doc?._source\<close>.
\<close>

record EsClient =
  searchPackage :: "string \<Rightarrow> string \<Rightarrow> int \<Rightarrow> SearchHit option promise"
  searchDoc :: "string \<Rightarrow> string \<Rightarrow> int \<Rightarrow> IndexedSymbol list promise"
  getDoc :: "string \<Rightarrow> FullDoc option promise"

text \<open>The object literal both functions map a stored symbol to.\<close>

definition toSymbolMatch :: "IndexedSymbol \<Rightarrow> SymbolMatch" where
  "toSymbolMatch symbol =
     \<lparr>sm_name = es_name symbol,
      sm_kind = es_kind symbol,
      sm_file_path = es_file_path symbol,
      snippet = take 160 (orEmpty (es_implementation symbol)),
      sm_is_exported = es_is_exported symbol,
      sm_relevance_score = es_relevance_score symbol,
      sm_implementation = es_implementation symbol,
      sm_jsdoc = es_jsdoc symbol,
      sm_signature = es_signature symbol\<rparr>"

definition fetchSymbolContext :: "EsClient \<Rightarrow> string \<Rightarrow> string \<Rightarrow> int \<Rightarrow> SymbolMatch list promise" where
  "fetchSymbolContext esClient docId query maxSnippets =
     (case searchDoc esClient docId query maxSnippets of
        Rejected e \<Rightarrow> Rejected e
      | Fulfilled innerHits \<Rightarrow>
          if length innerHits > 0 then Fulfilled (map toSymbolMatch innerHits)
          else (case getDoc esClient docId of
                  Rejected e \<Rightarrow> Fulfilled []
                | Fulfilled doc \<Rightarrow>
                    let symbols = (case doc of None \<Rightarrow> []
                                   | Some d \<Rightarrow> (case fd_symbols d of None \<Rightarrow> [] | Some l \<Rightarrow> l))
                    in Fulfilled (map toSymbolMatch (slice0 maxSnippets symbols))))"

record Context =
  ctx_source :: ElasticDoc
  ctx_symbols :: "SymbolMatch list"
  ctx_readme :: string
  ctx_codeExamples :: string
  ctx_exports :: "ExportEntry list"

text \<open>The empty object \<open>{}\<close> as a document source.\<close>

definition emptyDoc :: FullDoc where
  "emptyDoc = \<lparr>fd_doc = \<lparr>doc_name = None, doc_version = None, doc_description = None,
       readme_content = JUndefined, code_examples = JUndefined, doc_exports = None\<rparr>,
     fd_symbols = None\<rparr>"

text \<open>\<open>typeof symbol?.implementation === "string" && symbol.implementation.length > 0\<close>.\<close>

definition hasImplementation :: "IndexedSymbol \<Rightarrow> bool" where
  "hasImplementation symbol =
     (case es_implementation symbol of None \<Rightarrow> False | Some t \<Rightarrow> length t > 0)"

text \<open>
  \<open>.sort((a, b) => (b.relevance_score ?? 0) - (a.relevance_score ?? 0))\<close>: descending by
  score, and stable as \<open>Array.prototype.sort\<close> is.
\<close>

definition scoreOrZero :: "IndexedSymbol \<Rightarrow> int" where
  "scoreOrZero symbol = (case es_relevance_score symbol of None \<Rightarrow> 0 | Some n \<Rightarrow> n)"

definition sortByRelevance :: "IndexedSymbol list \<Rightarrow> IndexedSymbol list" where
  "sortByRelevance l = sort_key (\<lambda>symbol. - scoreOrZero symbol) l"

text \<open>
  The object literal \<open>findRelevantCode\<close> returns. Its two calls of \<open>extractTextField\<close>
  stand after the \<open>try\<close> of the fallback: what they throw rejects the promise.
\<close>

definition returnedContext :: "ElasticDoc \<Rightarrow> SymbolMatch list \<Rightarrow> Context option promise" where
  "returnedContext docSource symbols =
     (case extractTextField (readme_content docSource) of
        Throws e \<Rightarrow> Rejected e
      | Returns readmeText \<Rightarrow>
          (case extractTextField (code_examples docSource) of
             Throws e \<Rightarrow> Rejected e
           | Returns examples \<Rightarrow>
               Fulfilled (Some
                 \<lparr>ctx_source = docSource,
                  ctx_symbols = symbols,
                  ctx_readme = readmeText,
                  ctx_codeExamples = examples,
                  ctx_exports = (case doc_exports docSource of None \<Rightarrow> [] | Some l \<Rightarrow> l)\<rparr>)))"

definition findRelevantCode :: "EsClient \<Rightarrow> string \<Rightarrow> string \<Rightarrow> int \<Rightarrow> Context option promise" where
  "findRelevantCode esClient packageName query maxSnippets =
     (case searchPackage esClient packageName query maxSnippets of
        Rejected e \<Rightarrow> Rejected e
      | Fulfilled None \<Rightarrow> Fulfilled None
      | Fulfilled (Some hit) \<Rightarrow>
          let symbols = map toSymbolMatch (hit_inner_hits hit);
              docSource = hit_source hit;
              (docSource, symbols) =
                (if length symbols = 0 then
                   (case getDoc esClient (hit_id hit) of
                      Rejected e \<Rightarrow> (docSource, symbols)
                    | Fulfilled doc \<Rightarrow>
                        let docSourceFull = (case doc of None \<Rightarrow> emptyDoc | Some d \<Rightarrow> d);
                            allSymbols = (case fd_symbols docSourceFull of None \<Rightarrow> [] | Some l \<Rightarrow> l)
                        in (fd_doc docSourceFull,
                            map toSymbolMatch
                              (slice0 maxSnippets
                                 (sortByRelevance (filter hasImplementation allSymbols)))))
                 else (docSource, symbols))
          in returnedContext docSource symbols)"

section \<open>answer.ts: the answer service\<close>

record AnswerRequest =
  intent :: string
  packageName :: string
  searchQuery :: "string option"
  maxSnippets :: "int option"

record Citation =
  c_name :: string
  c_kind :: string
  c_file_path :: string
  c_jsdoc :: "string option"
  c_signature :: "string option"
  c_is_exported :: bool

record AnswerResponse =
  r_intent :: string
  r_packageName :: string
  r_searchQuery :: string
  r_code :: string
  r_context :: "Citation list"
  r_grounded :: bool
  r_note :: "string option"

text \<open>What \<open>generateAnswer\<close> resolves to: an \<open>AnswerResponse\<close> or \<open>{ error }\<close>.\<close>

datatype answer = Response AnswerResponse | ErrorResult string

text \<open>
  The prompt handed to the model. The grounded template is kept by the parts it
  interpolates (package name and version, intent, the README excerpt, the code examples
  excerpt, the first ten exports, the text of the symbol blocks), the ungrounded one by
  package name and intent; the fixed wording around them is left out.
\<close>

datatype prompt =
    GroundedPrompt "string option" "string option" string string string "ExportEntry list" string
  | UngroundedPrompt string string

text \<open>
  A generative model, by what \<open>await model.generateContent(prompt)\<close> followed by
  \<open>await result.response.text()\<close> does at the attempt of a given number on the prompt:
  resolve to the text, or throw. Each entry of the list of models has its own count of
  attempts (a model listed twice counts as two models).
\<close>

type_synonym GenerativeModel = "nat \<Rightarrow> prompt \<Rightarrow> string promise"

record AnswerServiceOptions =
  opt_esClient :: EsClient
  opt_generativeModel :: "GenerativeModel option"
  opt_generativeModels :: "GenerativeModel option list option"
  opt_maxRetries :: "int option"
  opt_allowUngroundedFallback :: "bool option"

text \<open>What the closure returned by \<open>createAnswerService\<close> captures.\<close>

record AnswerService =
  esClient :: EsClient
  models :: "GenerativeModel list"
  maxRetries :: int
  allowUngroundedFallback :: bool

definition createAnswerService :: "AnswerServiceOptions \<Rightarrow> AnswerService" where
  "createAnswerService options =
     \<lparr>esClient = opt_esClient options,
      models =
        (case opt_generativeModels options of
           Some (g # gs) \<Rightarrow> List.map_filter (\<lambda>m. m) (g # gs)
         | _ \<Rightarrow> (case opt_generativeModel options of Some m \<Rightarrow> [m] | None \<Rightarrow> [])),
      maxRetries = (case opt_maxRetries options of None \<Rightarrow> 1 | Some n \<Rightarrow> n),
      allowUngroundedFallback =
        (case opt_allowUngroundedFallback options of None \<Rightarrow> False | Some b \<Rightarrow> b)\<rparr>"

definition isRetryableGeminiError :: "thrown \<Rightarrow> bool" where
  "isRetryableGeminiError error =
     (case error of
        ErrorObject msg \<Rightarrow>
          (let message = toLowerCase msg in
           str_includes message ''503'' \<or> str_includes message ''unavailable'' \<or>
           str_includes message ''overloaded'')
      | _ \<Rightarrow> False)"

text \<open>One block of \<open>symbolsContext\<close>: the lines that are not empty, joined by line feeds.\<close>

definition symbolBlock :: "SymbolMatch \<Rightarrow> string" where
  "symbolBlock symbol =
     (let implementation = take 600 (orEmpty (sm_implementation symbol)) in
      join [CHR 0x0A]
        (filter (\<lambda>line. line \<noteq> [])
           [''// '' @ (if sm_is_exported symbol then ''Public API'' else ''Internal'') @ '' '' @
              sm_kind symbol @ '' '' @ sm_name symbol,
            ''// File: '' @ sm_file_path symbol,
            orEmpty (sm_jsdoc symbol),
            orEmpty (sm_signature symbol),
            implementation]))"

definition buildPrompt :: "AnswerRequest \<Rightarrow> Context option \<Rightarrow> prompt" where
  "buildPrompt payload groundedContext =
     (case groundedContext of
        Some ctx \<Rightarrow>
          GroundedPrompt (doc_name (ctx_source ctx)) (doc_version (ctx_source ctx))
            (intent payload)
            (take 2000 (ctx_readme ctx))
            (take 1200 (ctx_codeExamples ctx))
            (take 10 (ctx_exports ctx))
            (join [CHR 0x0A, CHR 0x0A] (map symbolBlock (ctx_symbols ctx)))
      | None \<Rightarrow> UngroundedPrompt (packageName payload) (intent payload))"

text \<open>
  The generation loops. A call is logged as the pair of the model's position in
  \<open>models\<close> and the attempt number. The inner loop runs
  \<open>for (attempt = 0; attempt < Math.max(1, maxRetries); attempt += 1)\<close>; it returns the
  answer at the first call that resolves, records the error of a call that throws and
  leaves the loop when that error is not retryable.
\<close>

type_synonym call_log = "(nat \<times> nat) list"

function attemptLoop ::
  "GenerativeModel \<Rightarrow> nat \<Rightarrow> prompt \<Rightarrow> int \<Rightarrow> nat \<Rightarrow> thrown option \<Rightarrow> call_log \<Rightarrow>
   string option \<times> thrown option \<times> call_log" where
  "attemptLoop model i p limit attempt lastError calls =
     (if int attempt < limit then
        (case model attempt p of
           Fulfilled answer \<Rightarrow> (Some answer, lastError, calls @ [(i, attempt)])
         | Rejected error \<Rightarrow>
             if \<not> isRetryableGeminiError error
             then (None, Some error, calls @ [(i, attempt)])
             else attemptLoop model i p limit (attempt + 1) (Some error) (calls @ [(i, attempt)]))
      else (None, lastError, calls))"
  by pat_completeness auto
termination
  by (relation "measure (\<lambda>(model, i, p, limit, attempt, lastError, calls). nat (limit - int attempt))")
     auto

declare attemptLoop.simps [simp del]

fun modelLoop ::
  "GenerativeModel list \<Rightarrow> nat \<Rightarrow> prompt \<Rightarrow> int \<Rightarrow> thrown option \<Rightarrow> call_log \<Rightarrow>
   string option \<times> thrown option \<times> call_log" where
  "modelLoop [] i p limit lastError calls = (None, lastError, calls)"
| "modelLoop (model # rest) i p limit lastError calls =
     (case attemptLoop model i p limit 0 lastError calls of
        (Some answer, lastError', calls') \<Rightarrow> (Some answer, lastError', calls')
      | (None, lastError', calls') \<Rightarrow> modelLoop rest (i + 1) p limit lastError' calls')"

definition toCitation :: "SymbolMatch \<Rightarrow> Citation" where
  "toCitation symbol =
     \<lparr>c_name = sm_name symbol,
      c_kind = sm_kind symbol,
      c_file_path = sm_file_path symbol,
      c_jsdoc = sm_jsdoc symbol,
      c_signature = sm_signature symbol,
      c_is_exported = sm_is_exported symbol\<rparr>"

text \<open>\<open>payload.searchQuery?.trim() || payload.intent\<close> and \<open>payload.maxSnippets ?? 3\<close>.\<close>

definition effectiveQuery :: "AnswerRequest \<Rightarrow> string" where
  "effectiveQuery payload =
     (case searchQuery payload of
        None \<Rightarrow> intent payload
      | Some q \<Rightarrow> if trim q = [] then intent payload else trim q)"

definition effectiveMaxSnippets :: "AnswerRequest \<Rightarrow> int" where
  "effectiveMaxSnippets payload = (case maxSnippets payload of None \<Rightarrow> 3 | Some n \<Rightarrow> n)"

text \<open>\<open>Boolean(context && context.symbols.length > 0)\<close>.\<close>

definition hasGroundedContext :: "Context option \<Rightarrow> bool" where
  "hasGroundedContext ctx = (case ctx of None \<Rightarrow> False | Some c \<Rightarrow> length (ctx_symbols c) > 0)"

definition noSymbolsMessage :: "string \<Rightarrow> string \<Rightarrow> string" where
  "noSymbolsMessage pkg q =
     ''No relevant symbols found for '' @ pkg @ '' with query '' @ [CHR 0x22] @ q @ [CHR 0x22]"

text \<open>
  The message of the final \<open>{ error: message }\<close>: the message of the last error when it
  is an \<open>Error\<close>, the error itself when it is a string, a fixed text otherwise.
\<close>

definition failureMessage :: "thrown option \<Rightarrow> string" where
  "failureMessage lastError =
     (case lastError of
        Some (ErrorObject msg) \<Rightarrow> msg
      | Some (ThrownString str) \<Rightarrow> str
      | _ \<Rightarrow> ''Failed to generate answer'')"

text \<open>
  \<open>generateAnswer\<close> with the log of the model calls it made. The promise rejects when
  \<open>findRelevantCode\<close> does: nothing in \<open>generateAnswer\<close> catches it.
\<close>

definition generateAnswer :: "AnswerService \<Rightarrow> AnswerRequest \<Rightarrow> answer promise \<times> call_log" where
  "generateAnswer svc payload =
     (if length (models svc) = 0 then (Fulfilled (ErrorResult ''Gemini API key not configured''), [])
      else
        (let searchQuery = effectiveQuery payload;
             maxSnippets = effectiveMaxSnippets payload
         in (case findRelevantCode (esClient svc) (packageName payload) searchQuery maxSnippets of
               Rejected e \<Rightarrow> (Rejected e, [])
             | Fulfilled ctx \<Rightarrow>
                (if \<not> hasGroundedContext ctx \<and> \<not> allowUngroundedFallback svc
                 then (Fulfilled (ErrorResult (noSymbolsMessage (packageName payload) searchQuery)), [])
                 else
                  (let groundedContext = (if hasGroundedContext ctx then ctx else None);
                       p = buildPrompt payload groundedContext
                   in (case modelLoop (models svc) 0 p (max 1 (maxRetries svc)) None [] of
                         (Some answer, lastError, calls) \<Rightarrow>
                           (Fulfilled (Response
                              \<lparr>r_intent = intent payload,
                               r_packageName = packageName payload,
                               r_searchQuery = searchQuery,
                               r_code = trim answer,
                               r_context = (case groundedContext of
                                              Some c \<Rightarrow> map toCitation (ctx_symbols c)
                                            | None \<Rightarrow> []),
                               r_grounded = hasGroundedContext ctx,
                               r_note = (if hasGroundedContext ctx then None
                                         else Some ''Generated without grounded context. Verify against official docs before use.'')\<rparr>),
                            calls)
                       | (None, lastError, calls) \<Rightarrow>
                           (Fulfilled (ErrorResult (failureMessage lastError)), calls)))))))"

section \<open>Vocabulary of the properties and concrete inputs\<close>

text \<open>The file-path markers the filter rejects (those of the source's two path tests).\<close>

definition pathMarkers :: "string list" where
  "pathMarkers = [''.test.'', ''.spec.'', ''__tests__'', ''mock'', ''fixture'', ''__mocks__'']"

text \<open>Two symbols of the scenario: a body of 40 characters and one of 5000.\<close>

definition sym40 :: ParsedSymbol where
  "sym40 = \<lparr>kind = K_const, name = ''tiny'', signature = ''const tiny'',
     implementation = replicate 40 CHR ''x'', jsdoc = None, startLine = 1, endLine = 1,
     filePath = ''src/index.ts'', isExported = True, parameters = None, returnType = None\<rparr>"

definition sym5000 :: ParsedSymbol where
  "sym5000 = \<lparr>kind = K_function, name = ''big'', signature = ''function big()'',
     implementation = replicate 5000 CHR ''x'', jsdoc = None, startLine = 1, endLine = 90,
     filePath = ''src/index.ts'', isExported = True, parameters = Some [],
     returnType = Some ''any''\<rparr>"

text \<open>A symbol that earns every bonus of the score and one that earns none.\<close>

definition symBest :: ParsedSymbol where
  "symBest = \<lparr>kind = K_function, name = ''load'', signature = ''function load()'',
     implementation = ''async function load() { try { return await fetch(u) } catch (e) {} }''
        @ replicate 40 CHR '' '',
     jsdoc = Some ''/** Loads the resource. */'', startLine = 1, endLine = 1,
     filePath = ''src/index.ts'', isExported = True, parameters = Some [],
     returnType = Some ''any''\<rparr>"

definition symWorst :: ParsedSymbol where
  "symWorst = \<lparr>kind = K_const, name = ''_x'', signature = ''const _x'',
     implementation = ''const _x = 1;'', jsdoc = None, startLine = 1, endLine = 1,
     filePath = ''src/index.ts'', isExported = False, parameters = None, returnType = None\<rparr>"


text \<open>
  The prompt \<open>generateAnswer\<close> sends once retrieval has given \<open>ctx\<close>: built from
  \<open>groundedContext\<close>, which is \<open>ctx\<close> when it is grounded and \<open>null\<close> otherwise.
\<close>

definition sentPrompt :: "AnswerRequest \<Rightarrow> Context option \<Rightarrow> prompt" where
  "sentPrompt payload ctx = buildPrompt payload (if hasGroundedContext ctx then ctx else None)"

text \<open>
  A package document of the index with one stored symbol whose implementation has 200
  characters, and five search indexes over it: one whose search gives the symbol as an
  inner hit, one whose search gives no inner hit so that the stored symbols are read from
  the document, one with no inner hit and no stored symbol, one whose get-by-id fails,
  and one whose search fails.
\<close>

definition symParse :: IndexedSymbol where
  "symParse = \<lparr>es_name = ''parse'', es_kind = ''function'', es_file_path = ''src/types.ts'',
     es_implementation = Some (replicate 200 CHR ''x''), es_is_exported = True,
     es_relevance_score = Some 15, es_jsdoc = None,
     es_signature = Some ''function parse(data)'', es_start_line = Some 10,
     es_end_line = Some 20, es_parameters = Some [''data: any''],
     es_return_type = Some ''any''\<rparr>"

definition zodDoc :: ElasticDoc where
  "zodDoc = \<lparr>doc_name = Some ''zod'', doc_version = Some ''3.22.4'', doc_description = None,
     readme_content = JString ''Zod'', code_examples = JNull, doc_exports = None\<rparr>"

definition zodHit :: "IndexedSymbol list \<Rightarrow> SearchHit" where
  "zodHit inner = \<lparr>hit_id = ''zod@3.22.4'', hit_source = zodDoc, hit_inner_hits = inner\<rparr>"

definition esInnerHits :: EsClient where
  "esInnerHits =
     \<lparr>searchPackage = (\<lambda>pkg q n. Fulfilled (Some (zodHit [symParse]))),
      searchDoc = (\<lambda>docId q n. Fulfilled [symParse]),
      getDoc = (\<lambda>docId. Fulfilled (Some \<lparr>fd_doc = zodDoc, fd_symbols = Some [symParse]\<rparr>))\<rparr>"

definition esDocFallback :: EsClient where
  "esDocFallback =
     \<lparr>searchPackage = (\<lambda>pkg q n. Fulfilled (Some (zodHit []))),
      searchDoc = (\<lambda>docId q n. Fulfilled []),
      getDoc = (\<lambda>docId. Fulfilled (Some \<lparr>fd_doc = zodDoc, fd_symbols = Some [symParse]\<rparr>))\<rparr>"

definition esNoSymbols :: EsClient where
  "esNoSymbols =
     \<lparr>searchPackage = (\<lambda>pkg q n. Fulfilled (Some (zodHit []))),
      searchDoc = (\<lambda>docId q n. Fulfilled []),
      getDoc = (\<lambda>docId. Fulfilled (Some \<lparr>fd_doc = zodDoc, fd_symbols = Some []\<rparr>))\<rparr>"

definition esGetFails :: EsClient where
  "esGetFails =
     \<lparr>searchPackage = (\<lambda>pkg q n. Fulfilled (Some (zodHit []))),
      searchDoc = (\<lambda>docId q n. Fulfilled []),
      getDoc = (\<lambda>docId. Rejected (ErrorObject ''connect ECONNREFUSED''))\<rparr>"




text \<open>
  Model mocks: one that resolves at once, one that throws a retryable error at its first
  two calls and resolves at the third, one that always throws a non-retryable error.
\<close>

definition modelOk :: GenerativeModel where
  "modelOk = (\<lambda>attempt p. Fulfilled '' const s = z.string(); '')"

definition modelFlaky :: GenerativeModel where
  "modelFlaky = (\<lambda>attempt p. if attempt < 2 then Rejected (ErrorObject ''503 Service Unavailable'')
                               else Fulfilled ''ok'')"

definition modelBroken :: GenerativeModel where
  "modelBroken = (\<lambda>attempt p. Rejected (ErrorObject ''API key not valid''))"

definition reqZod :: AnswerRequest where
  "reqZod = \<lparr>intent = ''create a schema and parse data'', packageName = ''zod'',
     searchQuery = None, maxSnippets = None\<rparr>"

text \<open>A request that gives a search query, padded with blanks, and a snippet limit.\<close>

definition reqParse :: AnswerRequest where
  "reqParse = \<lparr>intent = ''validate user input'', packageName = ''zod'',
     searchQuery = Some '' safeParse '', maxSnippets = Some 2\<rparr>"

definition service :: "EsClient \<Rightarrow> GenerativeModel list \<Rightarrow> int \<Rightarrow> bool \<Rightarrow> AnswerService" where
  "service es ms n allow =
     \<lparr>esClient = es, models = ms, maxRetries = n, allowUngroundedFallback = allow\<rparr>"

text \<open>The context \<open>findRelevantCode\<close> builds from the document above and given matches.\<close>

definition ctxZod :: "SymbolMatch list \<Rightarrow> Context" where
  "ctxZod matches = \<lparr>ctx_source = zodDoc, ctx_symbols = matches, ctx_readme = ''Zod'',
     ctx_codeExamples = [], ctx_exports = []\<rparr>"

text \<open>
  The source text of the parsing scenario and the tree the TypeScript parser builds for
  it: a source file whose one statement is a function declaration with the modifier
  \<open>export\<close>, the name \<open>add\<close> (characters 16 to 19), the parameters \<open>a: number\<close> (20 to 29)
  and \<open>b: number\<close> (31 to 40), the return type \<open>number\<close> (43 to 49) and a block with one
  return statement; the last child of the source file is the end-of-file token.
\<close>

definition addSource :: string where
  "addSource = ''export function add(a: number, b: number): number { return a + b; }''"

definition leaf :: "nat \<Rightarrow> nat \<Rightarrow> nat \<Rightarrow> node" where
  "leaf a b c = Node OtherSyntax \<lparr>fullStart = a, start = b, finish = c\<rparr> []"

definition addFunction :: node where
  "addFunction =
     Node (FunctionDeclaration [ExportKeyword]
             (Some \<lparr>fullStart = 15, start = 16, finish = 19\<rparr>)
             [\<lparr>p_range = \<lparr>fullStart = 20, start = 20, finish = 29\<rparr>,
               p_name = \<lparr>fullStart = 20, start = 20, finish = 21\<rparr>,
               p_type = Some \<lparr>fullStart = 22, start = 23, finish = 29\<rparr>\<rparr>,
              \<lparr>p_range = \<lparr>fullStart = 30, start = 31, finish = 40\<rparr>,
               p_name = \<lparr>fullStart = 30, start = 31, finish = 32\<rparr>,
               p_type = Some \<lparr>fullStart = 33, start = 34, finish = 40\<rparr>\<rparr>]
             (Some \<lparr>fullStart = 42, start = 43, finish = 49\<rparr>))
          \<lparr>fullStart = 0, start = 0, finish = 67\<rparr>
          [leaf 0 0 6,
           leaf 15 16 19,
           Node OtherSyntax \<lparr>fullStart = 20, start = 20, finish = 29\<rparr> [leaf 20 20 21, leaf 22 23 29],
           Node OtherSyntax \<lparr>fullStart = 30, start = 31, finish = 40\<rparr> [leaf 30 31 32, leaf 33 34 40],
           leaf 42 43 49,
           Node OtherSyntax \<lparr>fullStart = 49, start = 50, finish = 67\<rparr>
             [Node OtherSyntax \<lparr>fullStart = 51, start = 52, finish = 65\<rparr>
                [Node OtherSyntax \<lparr>fullStart = 58, start = 59, finish = 64\<rparr>
                   [leaf 58 59 60, leaf 60 61 62, leaf 62 63 64]]]]"

definition addTree :: node where
  "addTree = Node OtherSyntax \<lparr>fullStart = 0, start = 0, finish = 67\<rparr> [addFunction, leaf 67 67 67]"

text \<open>
  The strategies of \<open>fetchSourceCode\<close> in the words of the specification: the candidates
  in priority order, each with what it returns (GitHub only for a repository URL that is
  given), and the choice of the first candidate with at least one file, with the list of
  the candidates tried up to it.
\<close>

definition candidates ::
  "Network \<Rightarrow> string \<Rightarrow> string \<Rightarrow> string option \<Rightarrow> (source_strategy \<times> SourceCodeResult option) list" where
  "candidates net pkg version repoUrl =
     (case repoUrl of
        None \<Rightarrow> []
      | Some url \<Rightarrow> if url \<noteq> [] then [(S_github, fetchFromGitHub net url)] else [])
     @ [(S_tarball, fetchFromNpmTarball net pkg version),
        (S_unpkg, fetchFromUnpkg net pkg version)]"

fun firstWithFiles ::
  "(source_strategy \<times> SourceCodeResult option) list \<Rightarrow> SourceCodeResult option \<times> source_strategy list" where
  "firstWithFiles [] = (None, [])"
| "firstWithFiles ((s, r) # rest) =
     (if hasFiles r then (r, [s])
      else (fst (firstWithFiles rest), s # snd (firstWithFiles rest)))"


text \<open>
  A network where GitHub and the registry tarball give no file and the CDN serves one
  file, \<open>/src/index.js\<close>, for the package \<open>tiny\<close> at version 1.0.0.
\<close>

definition netCdnOnly :: Network where
  "netCdnOnly =
     \<lparr>fetchFromGitHub = (\<lambda>url. None),
      fetchFromNpmTarball = (\<lambda>pkg version. Some \<lparr>files = [], strategy = S_tarball, totalSize = 0\<rparr>),
      fetchText = (\<lambda>url. if url = ''https://unpkg.com/tiny@1.0.0/src/index.js''
                          then Ok ''module.exports = 1;'' else NotOk 404),
      fetchJson = (\<lambda>url. NotOk 404)\<rparr>"

text \<open>
  The placeholder metadata of \<open>fetchPackage\<close> and the URL of a file of a package version
  on the CDN.
\<close>

definition placeholderJson :: "string \<Rightarrow> PackageJson" where
  "placeholderJson pkg = \<lparr>pj_name = pkg, pj_version = ''unknown'', pj_description = None,
     pj_keywords = None, pj_repository = None\<rparr>"

definition packageJsonUrl :: "string \<Rightarrow> string \<Rightarrow> string" where
  "packageJsonUrl pkg version = ''https://unpkg.com/'' @ pkg @ ''@'' @ version @ ''/package.json''"

text \<open>
  A network on which every fetch answers 404 and no strategy finds a source file, and an
  environment over it whose index accepts every document but the one of the package
  \<open>bad\<close>.
\<close>

definition netDown :: Network where
  "netDown =
     \<lparr>fetchFromGitHub = (\<lambda>url. None),
      fetchFromNpmTarball = (\<lambda>pkg version. None),
      fetchText = (\<lambda>url. NotOk 404),
      fetchJson = (\<lambda>url. NotOk 404)\<rparr>"

definition envDown :: Environment where
  "envDown =
     \<lparr>network = netDown,
      createSourceFile = (\<lambda>path content. None),
      extractExportsSimple = (\<lambda>d. []),
      extractCodeBlocks = (\<lambda>r. []),
      indexDocument = (\<lambda>docId doc. if docId = ''bad@unknown''
                                    then Rejected (ErrorObject ''mapper_parsing_exception'')
                                    else Fulfilled ())\<rparr>"

text \<open>\<open>indexPackage\<close> (at version \<open>latest\<close>, as the batch calls it) throws for the package.\<close>

definition raises :: "Environment \<Rightarrow> string \<Rightarrow> bool" where
  "raises env pkg = (case fst (indexPackage env pkg ''latest'') of Rejected e \<Rightarrow> True | Fulfilled u \<Rightarrow> False)"

section \<open>Properties of the relevance filter and score\<close>

lemma includes_iff: "str_includes s p \<longleftrightarrow> (\<exists>a b. s = a @ p @ b)"
proof (induction s)
  case Nil
  then show ?case by auto
next
  case (Cons c cs)
  have sw: "startsWith t q \<longleftrightarrow> (\<exists>b. t = q @ b)" for t q
    by (induction t q rule: startsWith.induct) auto
  show ?case
  proof
    assume "str_includes (c # cs) p"
    then consider "startsWith (c # cs) p" | "str_includes cs p" by auto
    then show "\<exists>a b. c # cs = a @ p @ b"
    proof cases
      case 1
      then obtain b where "c # cs = p @ b" using sw by blast
      then have "c # cs = [] @ p @ b" by simp
      then show ?thesis by blast
    next
      case 2
      then obtain a b where "cs = a @ p @ b" using Cons.IH by blast
      then have "c # cs = (c # a) @ p @ b" by simp
      then show ?thesis by blast
    qed
  next
    assume "\<exists>a b. c # cs = a @ p @ b"
    then obtain a b where ab: "c # cs = a @ p @ b" by blast
    show "str_includes (c # cs) p"
    proof (cases a)
      case Nil
      then have "startsWith (c # cs) p" using ab sw by auto
      then show ?thesis by simp
    next
      case (Cons a0 as)
      then have "cs = as @ p @ b" using ab by simp
      then have "str_includes cs p" using Cons.IH by blast
      then show ?thesis by simp
    qed
  qed
qed

lemma keepSymbol_iff:
  "keepSymbol s \<longleftrightarrow>
     50 \<le> length (implementation s) \<and> length (implementation s) \<le> 10000 \<and>
     \<not> some (str_includes (filePath s)) pathMarkers"
  by (auto simp: keepSymbol_def pathMarkers_def)

lemma filterRelevantSymbols_set:
  "set (filterRelevantSymbols symbols) = {s \<in> set symbols. keepSymbol s}"
  by (simp add: filterRelevantSymbols_def)

text \<open>
  C8. \<open>filterRelevantSymbols\<close> keeps a symbol if and only if its implementation has at
  least 50 and at most 10000 characters and its file path contains none of the markers
  \<open>.test.\<close>, \<open>.spec.\<close>, \<open>__tests__\<close>, \<open>mock\<close>, \<open>fixture\<close>, \<open>__mocks__\<close>; the kept symbols
  stay in their order. In particular an entry of a list whose implementation has 40
  characters is removed, and one whose implementation has 5000 characters and whose path
  has no marker is kept.
\<close>

theorem filterRelevantSymbols_keeps_iff:
  "filterRelevantSymbols symbols =
     filter (\<lambda>s. 50 \<le> length (implementation s) \<and> length (implementation s) \<le> 10000 \<and>
                 \<not> some (str_includes (filePath s)) pathMarkers) symbols
   \<and> (s \<in> set (filterRelevantSymbols symbols) \<longleftrightarrow>
        s \<in> set symbols \<and> 50 \<le> length (implementation s) \<and>
        length (implementation s) \<le> 10000 \<and> \<not> some (str_includes (filePath s)) pathMarkers)
   \<and> (a \<in> set symbols \<and> length (implementation a) = 40 \<longrightarrow>
        a \<notin> set (filterRelevantSymbols symbols))
   \<and> (b \<in> set symbols \<and> length (implementation b) = 5000 \<and>
        \<not> some (str_includes (filePath b)) pathMarkers \<longrightarrow>
        b \<in> set (filterRelevantSymbols symbols))"
proof -
  have eq: "keepSymbol = (\<lambda>s. 50 \<le> length (implementation s) \<and>
      length (implementation s) \<le> 10000 \<and> \<not> some (str_includes (filePath s)) pathMarkers)"
    by (rule ext) (rule keepSymbol_iff)
  have 1: "filterRelevantSymbols symbols =
     filter (\<lambda>s. 50 \<le> length (implementation s) \<and> length (implementation s) \<le> 10000 \<and>
                 \<not> some (str_includes (filePath s)) pathMarkers) symbols"
    unfolding filterRelevantSymbols_def eq ..
  have 2: "x \<in> set (filterRelevantSymbols symbols) \<longleftrightarrow>
        x \<in> set symbols \<and> 50 \<le> length (implementation x) \<and>
        length (implementation x) \<le> 10000 \<and> \<not> some (str_includes (filePath x)) pathMarkers" for x
    by (simp add: filterRelevantSymbols_set keepSymbol_iff)
  have 3: "a \<in> set symbols \<and> length (implementation a) = 40 \<longrightarrow>
        a \<notin> set (filterRelevantSymbols symbols)"
    by (simp add: 2)
  have 4: "b \<in> set symbols \<and> length (implementation b) = 5000 \<and>
        \<not> some (str_includes (filePath b)) pathMarkers \<longrightarrow>
        b \<in> set (filterRelevantSymbols symbols)"
    by (simp add: 2)
  from 1 2 3 4 show ?thesis by blast
qed

theorem filterRelevantSymbols_keeps_iff_witness:
  "filterRelevantSymbols [sym40, sym5000] = [sym5000]
   \<and> sym40 \<notin> set (filterRelevantSymbols [sym40, sym5000])
   \<and> sym5000 \<in> set (filterRelevantSymbols [sym40, sym5000])"
proof -
  have p: "\<not> some (str_includes (filePath sym5000)) pathMarkers"
    by (simp add: sym5000_def pathMarkers_def)
  have l40: "length (implementation sym40) = 40" by (simp add: sym40_def)
  have l5000: "length (implementation sym5000) = 5000" by (simp add: sym5000_def)
  note t = filterRelevantSymbols_keeps_iff [of "[sym40, sym5000]" sym5000 sym40 sym5000]
  from t have out0: "sym40 \<in> set [sym40, sym5000] \<and> length (implementation sym40) = 40 \<longrightarrow>
      sym40 \<notin> set (filterRelevantSymbols [sym40, sym5000])"
    by blast
  have out: "sym40 \<notin> set (filterRelevantSymbols [sym40, sym5000])"
    by (rule mp [OF out0]) (simp add: l40)
  from t have kept0: "sym5000 \<in> set [sym40, sym5000] \<and> length (implementation sym5000) = 5000 \<and>
        \<not> some (str_includes (filePath sym5000)) pathMarkers \<longrightarrow>
      sym5000 \<in> set (filterRelevantSymbols [sym40, sym5000])"
    by blast
  have kept: "sym5000 \<in> set (filterRelevantSymbols [sym40, sym5000])"
    by (rule mp [OF kept0]) (simp add: l5000 p)
  from t have "filterRelevantSymbols [sym40, sym5000] =
     filter (\<lambda>s. 50 \<le> length (implementation s) \<and> length (implementation s) \<le> 10000 \<and>
                 \<not> some (str_includes (filePath s)) pathMarkers) [sym40, sym5000]"
    by (rule conjunct1)
  then have "filterRelevantSymbols [sym40, sym5000] = [sym5000]"
    by (simp add: p l40 l5000)
  with out kept show ?thesis by simp
qed

text \<open>
  C10. The relevance score is the sum of seven bonuses (10, 5, 3, 2, 2, 1, 2), each
  given at most once, so it is never negative and never above 25.
\<close>

theorem calculateRelevanceScore_bounds:
  "calculateRelevanceScore s =
       (if isExported s then 10 else 0)
     + (if hasJSDoc s then 5 else 0)
     + (if \<not> startsWith (name s) ''_'' then 3 else 0)
     + (if length (implementation s) > 100 \<and> length (implementation s) < 2000 then 2 else 0)
     + (if str_includes (implementation s) ''async'' \<or>
           str_includes (implementation s) ''await'' then 2 else 0)
     + (if str_includes (implementation s) ''try'' \<or> str_includes (implementation s) ''catch'' \<or>
           str_includes (implementation s) ''throw'' then 1 else 0)
     + (if some (\<lambda>keyword. str_includes (toLowerCase (implementation s)) keyword)
             importantKeywords then 2 else 0)
   \<and> 0 \<le> calculateRelevanceScore s \<and> calculateRelevanceScore s \<le> 25"
  by (simp add: calculateRelevanceScore_def Let_def)

theorem calculateRelevanceScore_bounds_witness:
  "calculateRelevanceScore symBest = 25 \<and> calculateRelevanceScore symWorst = 0"
proof -
  have "calculateRelevanceScore symBest = 25"
    using calculateRelevanceScore_bounds [of symBest]
    by (simp add: symBest_def hasJSDoc_def importantKeywords_def toLowerCase_def lowerChar_def)
  moreover have "calculateRelevanceScore symWorst = 0"
    using calculateRelevanceScore_bounds [of symWorst]
    by (simp add: symWorst_def hasJSDoc_def importantKeywords_def toLowerCase_def lowerChar_def)
  ultimately show ?thesis by simp
qed

section \<open>Properties of the parser\<close>

lemma lineOf_addSource: "lineOf addSource k = 0"
  by (simp add: lineOf_def addSource_def)

lemma visit_leaf: "visit fullText path (leaf a b c) = []"
  by (simp add: leaf_def)

lemma visit_addTree:
  "visit addSource path addTree =
     [\<lparr>kind = K_function, name = ''add'',
       signature = ''function add(a: number, b: number): number'',
       implementation = addSource, jsdoc = None, startLine = 1, endLine = 1,
       filePath = path, isExported = True,
       parameters = Some [''a: number'', ''b: number''], returnType = Some ''number''\<rparr>]"
  by (simp add: addTree_def addFunction_def visit_leaf pushed_def parseFunction_def
      getLineNumbers_def lineOf_addSource extractJSDoc_def substring_def isExportedNode_def
      extractParameters_def extractReturnType_def getText_def Let_def)
     (simp add: addSource_def)

text \<open>
  C7. Scenario A. Whenever the compiler's parser gives, for the source text
  \<open>export function add(a: number, b: number): number { return a + b; }\<close>, the tree of
  that text, \<open>parseSourceFile\<close> yields exactly one symbol: kind \<open>function\<close>, name \<open>add\<close>,
  exported, parameters \<open>a: number\<close> and \<open>b: number\<close>, return type \<open>number\<close>.
\<close>

theorem parseSourceFile_add:
  assumes "tsParser path addSource = Some addTree"
  shows "\<exists>symbol. parseSourceFile tsParser path addSource =
            Some \<lparr>pr_symbols = [symbol], pr_totalSymbols = 1, pr_filePath = path\<rparr> \<and>
          kind symbol = K_function \<and> name symbol = ''add'' \<and> isExported symbol = True \<and>
          parameters symbol = Some [''a: number'', ''b: number''] \<and>
          returnType symbol = Some ''number''"
  using assms by (simp add: parseSourceFile_def visit_addTree)

theorem parseSourceFile_add_witness:
  "\<exists>symbol. parseSourceFile (\<lambda>path content. Some addTree) ''src/add.ts'' addSource =
            Some \<lparr>pr_symbols = [symbol], pr_totalSymbols = 1, pr_filePath = ''src/add.ts''\<rparr> \<and>
          kind symbol = K_function \<and> name symbol = ''add'' \<and> isExported symbol = True \<and>
          parameters symbol = Some [''a: number'', ''b: number''] \<and>
          returnType symbol = Some ''number''"
proof -
  have "(\<lambda>path content. Some addTree) ''src/add.ts'' addSource = Some addTree" by simp
  then show ?thesis by (rule parseSourceFile_add)
qed

section \<open>Properties of the source fetcher\<close>

lemma fetchSourceCode_first:
  "fetchSourceCode net pkg version repoUrl =
     firstWithFiles (candidates net pkg version repoUrl)"
proof (cases repoUrl)
  case None
  then show ?thesis
    by (simp add: fetchSourceCode_def candidates_def Let_def hasFiles_def)
next
  case (Some url)
  then show ?thesis
    by (cases "url = []") (simp_all add: fetchSourceCode_def candidates_def Let_def hasFiles_def)
qed

lemma probePaths_skip:
  assumes "\<forall>p\<in>set paths. \<forall>t. fetchText net (unpkgUrl pkg version p) \<noteq> Ok t"
  shows "probePaths net pkg version paths acc = acc"
  using assms
proof (induction paths arbitrary: acc)
  case Nil
  then show ?case by (cases acc) simp
next
  case (Cons p paths)
  obtain fs bytes where acc: "acc = (fs, bytes)" by (cases acc)
  from Cons.prems have "\<forall>t. fetchText net (unpkgUrl pkg version p) \<noteq> Ok t" by simp
  then have "probePaths net pkg version (p # paths) (fs, bytes) =
      probePaths net pkg version paths (fs, bytes)"
    by (cases "fetchText net (unpkgUrl pkg version p)") simp_all
  with Cons acc show ?case by simp
qed

lemma fetchFromUnpkg_single:
  assumes one: "fetchText net (unpkgUrl pkg version ''/src/index.js'') = Ok content"
    and others: "\<forall>p\<in>set commonPaths. p \<noteq> ''/src/index.js'' \<longrightarrow>
           (\<forall>t. fetchText net (unpkgUrl pkg version p) \<noteq> Ok t)"
  shows "fetchFromUnpkg net pkg version =
     Some \<lparr>files = [\<lparr>sf_path = ''/src/index.js'', sf_content = content, sf_size = length content\<rparr>],
           strategy = S_unpkg, totalSize = length content\<rparr>"
proof -
  have split: "commonPaths = [''/src/index.ts''] @ ''/src/index.js'' #
      [''/src/client.ts'', ''/src/main.ts'', ''/lib/index.js'', ''/lib/main.js'']"
    by (simp add: commonPaths_def)
  have no1: "\<forall>t. fetchText net (unpkgUrl pkg version ''/src/index.ts'') \<noteq> Ok t"
    using others by (simp add: commonPaths_def)
  have no2: "\<forall>p\<in>set [''/src/client.ts'', ''/src/main.ts'', ''/lib/index.js'', ''/lib/main.js''].
      \<forall>t. fetchText net (unpkgUrl pkg version p) \<noteq> Ok t"
    using others by (simp add: commonPaths_def)
  let ?f = "\<lparr>sf_path = ''/src/index.js'', sf_content = content, sf_size = length content\<rparr>"
  have 1: "probePaths net pkg version commonPaths ([], 0) =
      probePaths net pkg version
        (''/src/index.js'' # [''/src/client.ts'', ''/src/main.ts'', ''/lib/index.js'', ''/lib/main.js''])
        ([], 0)"
    using no1 by (cases "fetchText net (unpkgUrl pkg version ''/src/index.ts'')")
      (simp_all add: commonPaths_def)
  have 2: "\<dots> = probePaths net pkg version
        [''/src/client.ts'', ''/src/main.ts'', ''/lib/index.js'', ''/lib/main.js'']
        ([?f], length content)"
    using one by simp
  have 3: "\<dots> = ([?f], length content)" by (rule probePaths_skip [OF no2])
  from 1 2 3 have "probePaths net pkg version commonPaths ([], 0) = ([?f], length content)"
    by simp
  then show ?thesis by (simp add: fetchFromUnpkg_def)
qed


lemma firstWithFiles_None:
  "fst (firstWithFiles cs) = None \<longleftrightarrow> (\<forall>c\<in>set cs. \<not> hasFiles (snd c))"
proof (induction cs)
  case Nil
  then show ?case by simp
next
  case (Cons c cs)
  obtain s r where c: "c = (s, r)" by (cases c)
  show ?case
  proof (cases "hasFiles r")
    case True
    then have "r \<noteq> None" by (cases r) (simp_all add: hasFiles_def)
    with True c show ?thesis by simp
  next
    case False
    with c Cons.IH show ?thesis by simp
  qed
qed

lemma firstWithFiles_prefix:
  "\<exists>rest. map fst cs = snd (firstWithFiles cs) @ rest"
proof (induction cs)
  case Nil
  then show ?case by simp
next
  case (Cons c cs)
  obtain s r where c: "c = (s, r)" by (cases c)
  from Cons.IH obtain rest where rest: "map fst cs = snd (firstWithFiles cs) @ rest" by blast
  show ?case
  proof (cases "hasFiles r")
    case True
    with c have "map fst (c # cs) = snd (firstWithFiles (c # cs)) @ map fst cs" by simp
    then show ?thesis by blast
  next
    case False
    with c rest have "map fst (c # cs) = snd (firstWithFiles (c # cs)) @ rest" by simp
    then show ?thesis by blast
  qed
qed

text \<open>
  C6. \<open>fetchSourceCode\<close> is the choice of the first candidate with at least one file
  among GitHub (a candidate only when a repository URL is given), the registry tarball and
  the CDN, in this order: it runs a prefix of the candidates, returns the result of the
  first that has a file, and returns \<open>null\<close> exactly when no candidate has a file. In
  particular, with no repository URL, a tarball strategy that gives no file and a CDN that
  serves \<open>/src/index.js\<close> and none of the other probed paths, it returns that single file
  with the strategy \<open>unpkg\<close> and the size of the file as \<open>totalSize\<close>.
\<close>

theorem fetchSourceCode_order:
  "fetchSourceCode net pkg version repoUrl = firstWithFiles (candidates net pkg version repoUrl)
   \<and> (\<exists>rest. map fst (candidates net pkg version repoUrl) =
          snd (fetchSourceCode net pkg version repoUrl) @ rest)
   \<and> (fst (fetchSourceCode net pkg version repoUrl) = None \<longleftrightarrow>
        (\<forall>c\<in>set (candidates net pkg version repoUrl). \<not> hasFiles (snd c)))
   \<and> (repoUrl = None \<and> \<not> hasFiles (fetchFromNpmTarball net pkg version) \<and>
       fetchText net (unpkgUrl pkg version ''/src/index.js'') = Ok content \<and>
       (\<forall>p\<in>set commonPaths. p \<noteq> ''/src/index.js'' \<longrightarrow>
           (\<forall>t. fetchText net (unpkgUrl pkg version p) \<noteq> Ok t)) \<longrightarrow>
       fetchSourceCode net pkg version repoUrl =
         (Some \<lparr>files = [\<lparr>sf_path = ''/src/index.js'', sf_content = content,
                           sf_size = length content\<rparr>],
                 strategy = S_unpkg, totalSize = length content\<rparr>,
          [S_tarball, S_unpkg]))"
proof (intro conjI impI)
  show first: "fetchSourceCode net pkg version repoUrl =
      firstWithFiles (candidates net pkg version repoUrl)"
    by (rule fetchSourceCode_first)
  show "\<exists>rest. map fst (candidates net pkg version repoUrl) =
          snd (fetchSourceCode net pkg version repoUrl) @ rest"
    unfolding first by (rule firstWithFiles_prefix)
  show "fst (fetchSourceCode net pkg version repoUrl) = None \<longleftrightarrow>
        (\<forall>c\<in>set (candidates net pkg version repoUrl). \<not> hasFiles (snd c))"
    unfolding first by (rule firstWithFiles_None)
next
  assume a: "repoUrl = None \<and> \<not> hasFiles (fetchFromNpmTarball net pkg version) \<and>
       fetchText net (unpkgUrl pkg version ''/src/index.js'') = Ok content \<and>
       (\<forall>p\<in>set commonPaths. p \<noteq> ''/src/index.js'' \<longrightarrow>
           (\<forall>t. fetchText net (unpkgUrl pkg version p) \<noteq> Ok t))"
  note one = a [THEN conjunct2, THEN conjunct2, THEN conjunct1]
  note others = a [THEN conjunct2, THEN conjunct2, THEN conjunct2]
  have u: "fetchFromUnpkg net pkg version =
     Some \<lparr>files = [\<lparr>sf_path = ''/src/index.js'', sf_content = content, sf_size = length content\<rparr>],
           strategy = S_unpkg, totalSize = length content\<rparr>"
    by (rule fetchFromUnpkg_single [OF one others])
  then have "hasFiles (fetchFromUnpkg net pkg version)" by (simp add: hasFiles_def)
  with a u show "fetchSourceCode net pkg version repoUrl =
         (Some \<lparr>files = [\<lparr>sf_path = ''/src/index.js'', sf_content = content,
                           sf_size = length content\<rparr>],
                 strategy = S_unpkg, totalSize = length content\<rparr>,
          [S_tarball, S_unpkg])"
    by (simp add: fetchSourceCode_first candidates_def)
qed

theorem fetchSourceCode_order_witness:
  "fetchSourceCode netCdnOnly ''tiny'' ''1.0.0'' None =
     (Some \<lparr>files = [\<lparr>sf_path = ''/src/index.js'', sf_content = ''module.exports = 1;'',
                       sf_size = 19\<rparr>],
             strategy = S_unpkg, totalSize = 19\<rparr>,
      [S_tarball, S_unpkg])"
proof -
  have tar: "\<not> hasFiles (fetchFromNpmTarball netCdnOnly ''tiny'' ''1.0.0'')"
    by (simp add: netCdnOnly_def hasFiles_def)
  have one: "fetchText netCdnOnly (unpkgUrl ''tiny'' ''1.0.0'' ''/src/index.js'') =
      Ok ''module.exports = 1;''"
    by (simp add: netCdnOnly_def unpkgUrl_def)
  have others: "\<forall>p\<in>set commonPaths. p \<noteq> ''/src/index.js'' \<longrightarrow>
      (\<forall>t. fetchText netCdnOnly (unpkgUrl ''tiny'' ''1.0.0'' p) \<noteq> Ok t)"
    by (simp add: netCdnOnly_def unpkgUrl_def commonPaths_def)
  note t = fetchSourceCode_order [of netCdnOnly "''tiny''" "''1.0.0''" None "''module.exports = 1;''",
      THEN conjunct2, THEN conjunct2, THEN conjunct2]
  have "fetchSourceCode netCdnOnly ''tiny'' ''1.0.0'' None =
         (Some \<lparr>files = [\<lparr>sf_path = ''/src/index.js'', sf_content = ''module.exports = 1;'',
                           sf_size = length ''module.exports = 1;''\<rparr>],
                 strategy = S_unpkg, totalSize = length ''module.exports = 1;''\<rparr>,
          [S_tarball, S_unpkg])"
    by (rule mp [OF t]) (intro conjI refl tar one others)
  then show ?thesis by simp
qed

section \<open>Properties of the indexer\<close>

lemma fetchPackage_fulfilled:
  "\<exists>d. fetchPackage net pkg version = Fulfilled d \<and>
       ((\<forall>j. fetchJson net (packageJsonUrl pkg version) \<noteq> Ok j) \<longrightarrow>
          pkgJson d = placeholderJson pkg)"
proof -
  have url: "(''https://unpkg.com/'' @ pkg @ ''@'' @ version) @ ''/package.json'' =
      packageJsonUrl pkg version"
    by (simp add: packageJsonUrl_def)
  show ?thesis
    unfolding fetchPackage_def Let_def url
    by (cases "fetchJson net (packageJsonUrl pkg version)") (simp_all add: placeholderJson_def)
qed

lemma buildDocument_id:
  "fst (buildDocument env pkg d) = pj_name (pkgJson d) @ ''@'' @ pj_version (pkgJson d)"
  by (simp add: buildDocument_def Let_def split: prod.splits)

lemma indexPackage_outcome:
  "\<exists>d docId doc. fetchPackage (network env) pkg version = Fulfilled d \<and>
      buildDocument env pkg d = (docId, doc) \<and>
      snd (indexPackage env pkg version) = Some (docId, doc) \<and>
      fst (indexPackage env pkg version) =
        (case indexDocument env docId doc of Rejected e \<Rightarrow> Rejected e | Fulfilled u \<Rightarrow> Fulfilled ())"
proof -
  obtain d where d: "fetchPackage (network env) pkg version = Fulfilled d"
    using fetchPackage_fulfilled by blast
  obtain docId doc where b: "buildDocument env pkg d = (docId, doc)" by (cases "buildDocument env pkg d")
  have "snd (indexPackage env pkg version) = Some (docId, doc)"
    using d b by (cases "indexDocument env docId doc") (simp_all add: indexPackage_def)
  moreover have "fst (indexPackage env pkg version) =
        (case indexDocument env docId doc of Rejected e \<Rightarrow> Rejected e | Fulfilled u \<Rightarrow> Fulfilled ())"
    using d b by (cases "indexDocument env docId doc") (simp_all add: indexPackage_def)
  ultimately show ?thesis using d b by blast
qed

lemma indexLoop_counts:
  "indexLoop env packages (successful, failed) =
     (successful + length (filter (\<lambda>p. \<not> raises env p) packages),
      failed + length (filter (raises env) packages))"
proof (induction packages arbitrary: successful failed)
  case Nil
  then show ?case by simp
next
  case (Cons p packages)
  show ?case
  proof (cases "fst (indexPackage env p ''latest'')")
    case (Fulfilled u)
    then have "\<not> raises env p" by (simp add: raises_def)
    with Fulfilled Cons.IH [of "successful + 1" failed] show ?thesis by simp
  next
    case (Rejected e)
    then have "raises env p" by (simp add: raises_def)
    with Rejected Cons.IH [of successful "failed + 1"] show ?thesis by simp
  qed
qed

lemma netDown_json: "\<forall>j. fetchJson (network envDown) url \<noteq> Ok j"
  by (simp add: envDown_def netDown_def)

text \<open>
  C5, as amended. A failed fetch of the registry metadata does not make the ingestion of
  the package fail: \<open>fetchPackage\<close> never throws and puts the placeholder metadata (the
  requested name, version \<open>unknown\<close>) in its place, and \<open>indexPackage\<close> goes on to submit
  a document under the id \<open>name@unknown\<close>. \<open>indexPackage\<close> throws exactly when the write
  to the index rejects. \<open>indexPackages\<close> catches every failure of \<open>indexPackage\<close> at batch
  level, counts it as failed and goes on with the remaining packages: \<open>failed\<close> is the
  number of packages for which \<open>indexPackage\<close> threw, \<open>successful\<close> the number of the
  others.
\<close>

theorem indexPackage_failure_isolation:
  "(\<exists>d. fetchPackage (network env) pkg version = Fulfilled d \<and>
        ((\<forall>j. fetchJson (network env) (packageJsonUrl pkg version) \<noteq> Ok j) \<longrightarrow>
           pkgJson d = placeholderJson pkg))
   \<and> (\<exists>docId doc. snd (indexPackage env pkg version) = Some (docId, doc) \<and>
        fst (indexPackage env pkg version) =
          (case indexDocument env docId doc of Rejected e \<Rightarrow> Rejected e | Fulfilled u \<Rightarrow> Fulfilled ()) \<and>
        ((\<forall>j. fetchJson (network env) (packageJsonUrl pkg version) \<noteq> Ok j) \<longrightarrow>
           docId = pkg @ ''@unknown'' \<and> pd_name doc = pkg \<and> pd_version doc = ''unknown''))
   \<and> indexPackages env packages =
        (length (filter (\<lambda>p. \<not> raises env p) packages), length (filter (raises env) packages))
   \<and> fst (indexPackages env packages) + snd (indexPackages env packages) = length packages"
proof (intro conjI)
  show "\<exists>d. fetchPackage (network env) pkg version = Fulfilled d \<and>
        ((\<forall>j. fetchJson (network env) (packageJsonUrl pkg version) \<noteq> Ok j) \<longrightarrow>
           pkgJson d = placeholderJson pkg)"
    by (rule fetchPackage_fulfilled)
next
  from fetchPackage_fulfilled [of "network env" pkg version] obtain d where
    d: "fetchPackage (network env) pkg version = Fulfilled d" and
    ph: "(\<forall>j. fetchJson (network env) (packageJsonUrl pkg version) \<noteq> Ok j) \<longrightarrow>
           pkgJson d = placeholderJson pkg"
    by blast
  from indexPackage_outcome [of env pkg version] d obtain docId doc where
    b: "buildDocument env pkg d = (docId, doc)" and
    w: "snd (indexPackage env pkg version) = Some (docId, doc)" and
    o: "fst (indexPackage env pkg version) =
        (case indexDocument env docId doc of Rejected e \<Rightarrow> Rejected e | Fulfilled u \<Rightarrow> Fulfilled ())"
    by auto
  have nv: "pd_name doc = pj_name (pkgJson d) \<and> pd_version doc = pj_version (pkgJson d)"
    using b by (auto simp: buildDocument_def Let_def split: prod.splits)
  have id: "docId = pj_name (pkgJson d) @ ''@'' @ pj_version (pkgJson d)"
    using buildDocument_id [of env pkg d] b by simp
  have "(\<forall>j. fetchJson (network env) (packageJsonUrl pkg version) \<noteq> Ok j) \<longrightarrow>
           docId = pkg @ ''@unknown'' \<and> pd_name doc = pkg \<and> pd_version doc = ''unknown''"
  proof
    assume "\<forall>j. fetchJson (network env) (packageJsonUrl pkg version) \<noteq> Ok j"
    with ph have "pkgJson d = placeholderJson pkg" by simp
    with id nv show "docId = pkg @ ''@unknown'' \<and> pd_name doc = pkg \<and> pd_version doc = ''unknown''"
      by (simp add: placeholderJson_def)
  qed
  with w o show "\<exists>docId doc. snd (indexPackage env pkg version) = Some (docId, doc) \<and>
        fst (indexPackage env pkg version) =
          (case indexDocument env docId doc of Rejected e \<Rightarrow> Rejected e | Fulfilled u \<Rightarrow> Fulfilled ()) \<and>
        ((\<forall>j. fetchJson (network env) (packageJsonUrl pkg version) \<noteq> Ok j) \<longrightarrow>
           docId = pkg @ ''@unknown'' \<and> pd_name doc = pkg \<and> pd_version doc = ''unknown'')"
    by (intro exI [of _ docId] exI [of _ doc]) simp
next
  show c: "indexPackages env packages =
        (length (filter (\<lambda>p. \<not> raises env p) packages), length (filter (raises env) packages))"
    by (simp add: indexPackages_def indexLoop_counts)
  show "fst (indexPackages env packages) + snd (indexPackages env packages) = length packages"
    unfolding c by (simp add: sum_length_filter_compl add.commute)
qed

lemma envDown_outcome:
  "fst (indexPackage envDown pkg ''latest'') =
     (if pkg = ''bad'' then Rejected (ErrorObject ''mapper_parsing_exception'') else Fulfilled ())"
proof -
  from indexPackage_outcome [of envDown pkg "''latest''"] obtain d docId doc where
    d: "fetchPackage (network envDown) pkg ''latest'' = Fulfilled d" and
    b: "buildDocument envDown pkg d = (docId, doc)" and
    o: "fst (indexPackage envDown pkg ''latest'') =
        (case indexDocument envDown docId doc of Rejected e \<Rightarrow> Rejected e | Fulfilled u \<Rightarrow> Fulfilled ())"
    by blast
  from fetchPackage_fulfilled [of "network envDown" pkg "''latest''"] d netDown_json
  have "pkgJson d = placeholderJson pkg" by simp
  with buildDocument_id [of envDown pkg d] b have "docId = pkg @ ''@unknown''"
    by (simp add: placeholderJson_def)
  with o show ?thesis by (simp add: envDown_def)
qed

text \<open>
  The claim as first stated fails: with the metadata fetch answering 404 and an index that
  accepts the document, \<open>indexPackage\<close> does not throw and the batch counts the package
  as successful.
\<close>

theorem metadata_failure_not_fatal:
  "fetchJson (network envDown) (packageJsonUrl ''left-pad'' ''latest'') = NotOk 404
   \<and> fst (indexPackage envDown ''left-pad'' ''latest'') = Fulfilled ()
   \<and> indexPackages envDown [''left-pad''] = (1, 0)"
  by (simp add: envDown_outcome indexPackages_def) (simp add: envDown_def netDown_def)

theorem indexPackage_failure_isolation_witness:
  "indexPackages envDown [''good'', ''bad'', ''fine''] = (2, 1)
   \<and> fst (indexPackage envDown ''bad'' ''latest'') = Rejected (ErrorObject ''mapper_parsing_exception'')
   \<and> (\<exists>doc. snd (indexPackage envDown ''good'' ''latest'') = Some (''good@unknown'', doc) \<and>
         pd_version doc = ''unknown'')
   \<and> fst (indexPackage envDown ''good'' ''latest'') = Fulfilled ()"
proof -
  note t = indexPackage_failure_isolation [of envDown "''good''" "''latest''"
      "[''good'', ''bad'', ''fine'']"]
  have r: "raises envDown ''bad''" "\<not> raises envDown ''good''" "\<not> raises envDown ''fine''"
    by (simp_all add: raises_def envDown_outcome)
  from t have "indexPackages envDown [''good'', ''bad'', ''fine''] =
        (length (filter (\<lambda>p. \<not> raises envDown p) [''good'', ''bad'', ''fine'']),
         length (filter (raises envDown) [''good'', ''bad'', ''fine'']))"
    by (elim conjE)
  then have 1: "indexPackages envDown [''good'', ''bad'', ''fine''] = (2, 1)"
    by (simp add: r)
  from t obtain docId doc where
    w: "snd (indexPackage envDown ''good'' ''latest'') = Some (docId, doc)" and
    i: "(\<forall>j. fetchJson (network envDown) (packageJsonUrl ''good'' ''latest'') \<noteq> Ok j) \<longrightarrow>
           docId = ''good'' @ ''@unknown'' \<and> pd_name doc = ''good'' \<and> pd_version doc = ''unknown''"
    by (elim conjE exE)
  from i netDown_json have "docId = ''good@unknown''" "pd_version doc = ''unknown''" by simp_all
  with w have 2: "\<exists>doc. snd (indexPackage envDown ''good'' ''latest'') = Some (''good@unknown'', doc) \<and>
         pd_version doc = ''unknown''" by (intro exI [of _ doc]) simp
  have 3: "fst (indexPackage envDown ''bad'' ''latest'') = Rejected (ErrorObject ''mapper_parsing_exception'')"
    "fst (indexPackage envDown ''good'' ''latest'') = Fulfilled ()"
    by (simp_all add: envDown_outcome)
  from 1 2 3 show ?thesis by simp
qed

section \<open>Properties of the generation loops\<close>

lemma attemptLoop_spec:
  "attemptLoop model i p limit attempt lastError calls = (res, le', calls') \<Longrightarrow>
   \<exists>n. calls' = calls @ map (Pair i) [attempt..<attempt + n] \<and>
       (case res of
          Some answer \<Rightarrow> n > 0 \<and> model (attempt + n - 1) p = Fulfilled answer \<and>
             (\<forall>k. attempt \<le> k \<and> k < attempt + n - 1 \<longrightarrow> (\<exists>e. model k p = Rejected e))
        | None \<Rightarrow> (\<forall>k. attempt \<le> k \<and> k < attempt + n \<longrightarrow> (\<exists>e. model k p = Rejected e)))"
proof (induction model i p limit attempt lastError calls rule: attemptLoop.induct)
  case (1 model i p limit attempt lastError calls)
  note unfold = attemptLoop.simps [of model i p limit attempt lastError calls]
  show ?case
  proof (cases "int attempt < limit")
    case False
    with "1.prems" have "calls' = calls" "res = None" by (simp_all add: unfold)
    then show ?thesis by (intro exI [of _ 0]) auto
  next
    case True
    show ?thesis
    proof (cases "model attempt p")
      case (Fulfilled answer)
      with True "1.prems" have "calls' = calls @ [(i, attempt)]" "res = Some answer"
        by (simp_all add: unfold)
      then show ?thesis using Fulfilled by (intro exI [of _ 1]) auto
    next
      case (Rejected error)
      show ?thesis
      proof (cases "isRetryableGeminiError error")
        case False
        with True Rejected "1.prems" have "calls' = calls @ [(i, attempt)]" "res = None"
          by (simp_all add: unfold)
        then show ?thesis using Rejected by (intro exI [of _ 1]) (auto simp: le_less_Suc_eq)
      next
        case retry: True
        with True Rejected "1.prems"
        have "attemptLoop model i p limit (attempt + 1) (Some error) (calls @ [(i, attempt)])
                = (res, le', calls')" by (simp add: unfold)
        from "1.IH" [OF True Rejected _ this] retry
        obtain n where n: "calls' = (calls @ [(i, attempt)]) @ map (Pair i) [attempt + 1..<attempt + 1 + n]"
          and r: "(case res of
          Some answer \<Rightarrow> n > 0 \<and> model (attempt + 1 + n - 1) p = Fulfilled answer \<and>
             (\<forall>k. attempt + 1 \<le> k \<and> k < attempt + 1 + n - 1 \<longrightarrow> (\<exists>e. model k p = Rejected e))
        | None \<Rightarrow> (\<forall>k. attempt + 1 \<le> k \<and> k < attempt + 1 + n \<longrightarrow> (\<exists>e. model k p = Rejected e)))"
          by auto
        have c: "calls' = calls @ map (Pair i) [attempt..<attempt + (n + 1)]"
          using n by (simp add: upt_rec [of attempt])
        have rej: "\<exists>e. model k p = Rejected e" if "k = attempt" for k
          using that Rejected by simp
        have "(case res of
          Some answer \<Rightarrow> n + 1 > 0 \<and> model (attempt + (n + 1) - 1) p = Fulfilled answer \<and>
             (\<forall>k. attempt \<le> k \<and> k < attempt + (n + 1) - 1 \<longrightarrow> (\<exists>e. model k p = Rejected e))
        | None \<Rightarrow> (\<forall>k. attempt \<le> k \<and> k < attempt + (n + 1) \<longrightarrow> (\<exists>e. model k p = Rejected e)))"
        proof (cases res)
          case None
          with r have "\<forall>k. attempt + 1 \<le> k \<and> k < attempt + 1 + n \<longrightarrow> (\<exists>e. model k p = Rejected e)"
            by simp
          then have "\<forall>k. attempt \<le> k \<and> k < attempt + (n + 1) \<longrightarrow> (\<exists>e. model k p = Rejected e)"
            using rej by (metis Suc_eq_plus1 Suc_leI add.assoc add.commute le_neq_implies_less)
          with None show ?thesis by simp
        next
          case (Some answer)
          with r have a: "n > 0" "model (attempt + 1 + n - 1) p = Fulfilled answer"
            "\<forall>k. attempt + 1 \<le> k \<and> k < attempt + 1 + n - 1 \<longrightarrow> (\<exists>e. model k p = Rejected e)"
            by simp_all
          from a(3) have "\<forall>k. attempt \<le> k \<and> k < attempt + (n + 1) - 1 \<longrightarrow> (\<exists>e. model k p = Rejected e)"
            using rej by (metis Suc_eq_plus1 Suc_leI add.assoc add.commute le_neq_implies_less)
          moreover have "model (attempt + (n + 1) - 1) p = Fulfilled answer"
            using a(2) by (simp add: add.commute add.left_commute)
          ultimately show ?thesis using Some by simp
        qed
        with c show ?thesis by blast
      qed
    qed
  qed
qed

lemma attemptLoop_retry_success:
  assumes "attempt \<le> j" "int j < limit" "model j p = Fulfilled answer"
    "\<forall>k. attempt \<le> k \<and> k < j \<longrightarrow> (\<exists>e. model k p = Rejected e \<and> isRetryableGeminiError e)"
  shows "\<exists>le'. attemptLoop model i p limit attempt lastError calls =
           (Some answer, le', calls @ map (Pair i) [attempt..<Suc j])"
  using assms
proof (induction "j - attempt" arbitrary: attempt lastError calls)
  case 0
  then have "attempt = j" by simp
  with 0 show ?case
    by (simp add: attemptLoop.simps [of model i p limit j lastError calls])
next
  case (Suc d)
  then have lt: "attempt < j" by simp
  with Suc.prems obtain e where e: "model attempt p = Rejected e" "isRetryableGeminiError e"
    by blast
  have lim: "int attempt < limit" using lt Suc.prems(2) by simp
  have d: "d = j - (attempt + 1)" using Suc.hyps(2) by simp
  have "\<exists>le'. attemptLoop model i p limit (attempt + 1) (Some e) (calls @ [(i, attempt)]) =
           (Some answer, le', (calls @ [(i, attempt)]) @ map (Pair i) [attempt + 1..<Suc j])"
    by (rule Suc.hyps(1) [OF d]) (use lt Suc.prems in auto)
  then obtain le' where "attemptLoop model i p limit (attempt + 1) (Some e) (calls @ [(i, attempt)]) =
           (Some answer, le', (calls @ [(i, attempt)]) @ map (Pair i) [attempt + 1..<Suc j])"
    by blast
  moreover have "[attempt..<Suc j] = attempt # [attempt + 1..<Suc j]"
    using lt by (simp add: upt_rec [of attempt])
  ultimately have "attemptLoop model i p limit attempt lastError calls =
           (Some answer, le', calls @ map (Pair i) [attempt..<Suc j])"
    using e lim by (simp add: attemptLoop.simps [of model i p limit attempt lastError calls])
  then show ?case by blast
qed


lemma attemptLoop_calls_once:
  assumes lim: "int attempt < limit"
  shows "\<exists>res le' rest. attemptLoop model i p limit attempt lastError calls =
      (res, le', calls @ (i, attempt) # rest) \<and> (\<forall>c\<in>set rest. fst c = i)"
proof (cases "model attempt p")
  case (Fulfilled answer)
  with lim have "attemptLoop model i p limit attempt lastError calls =
      (Some answer, lastError, calls @ (i, attempt) # [])"
    by (simp add: attemptLoop.simps [of model i p limit attempt lastError calls])
  then show ?thesis by (metis empty_iff empty_set)
next
  case (Rejected error)
  show ?thesis
  proof (cases "isRetryableGeminiError error")
    case False
    with lim Rejected have "attemptLoop model i p limit attempt lastError calls =
      (None, Some error, calls @ (i, attempt) # [])"
      by (simp add: attemptLoop.simps [of model i p limit attempt lastError calls])
    then show ?thesis by (metis empty_iff empty_set)
  next
    case True
    obtain res le' calls' where
      r: "attemptLoop model i p limit (attempt + 1) (Some error) (calls @ [(i, attempt)]) = (res, le', calls')"
      by (metis prod_cases3)
    from attemptLoop_spec [OF r] obtain n where
      n: "calls' = (calls @ [(i, attempt)]) @ map (Pair i) [attempt + 1..<attempt + 1 + n]"
      by blast
    have "attemptLoop model i p limit attempt lastError calls = (res, le', calls')"
      using lim Rejected True r
      by (simp add: attemptLoop.simps [of model i p limit attempt lastError calls])
    then have "attemptLoop model i p limit attempt lastError calls =
        (res, le', calls @ (i, attempt) # map (Pair i) [attempt + 1..<attempt + 1 + n])"
      using n by simp
    moreover have "\<forall>c\<in>set (map (Pair i) [attempt + 1..<attempt + 1 + n]). fst c = i" by simp
    ultimately show ?thesis by blast
  qed
qed

lemma modelLoop_spec:
  "modelLoop ms i p limit lastError calls = (res, le', calls') \<Longrightarrow>
   \<exists>new. calls' = calls @ new \<and> (\<forall>c\<in>set new. i \<le> fst c \<and> fst c < i + length ms) \<and>
     (case res of
        Some answer \<Rightarrow> new \<noteq> [] \<and> (ms ! (fst (last new) - i)) (snd (last new)) p = Fulfilled answer
      | None \<Rightarrow> (\<forall>c\<in>set new. \<exists>e. (ms ! (fst c - i)) (snd c) p = Rejected e))"
proof (induction ms arbitrary: i lastError calls)
  case Nil
  then show ?case by auto
next
  case (Cons model rest)
  obtain r1 le1 c1 where a: "attemptLoop model i p limit 0 lastError calls = (r1, le1, c1)"
    by (metis prod_cases3)
  from attemptLoop_spec [OF a] obtain n where
    c1: "c1 = calls @ map (Pair i) [0..<0 + n]" and
    r1: "(case r1 of
          Some answer \<Rightarrow> n > 0 \<and> model (0 + n - 1) p = Fulfilled answer \<and>
             (\<forall>k. 0 \<le> k \<and> k < 0 + n - 1 \<longrightarrow> (\<exists>e. model k p = Rejected e))
        | None \<Rightarrow> (\<forall>k. 0 \<le> k \<and> k < 0 + n \<longrightarrow> (\<exists>e. model k p = Rejected e)))"
    by blast
  let ?new1 = "map (Pair i) [0..<n]"
  show ?case
  proof (cases r1)
    case (Some answer)
    with a Cons.prems have res: "res = Some answer" "calls' = c1" by simp_all
    from Some r1 have n: "n > 0" "model (n - 1) p = Fulfilled answer" by simp_all
    have l: "last ?new1 = (i, n - 1)" using n(1) by (simp add: last_map)
    have "calls' = calls @ ?new1" using c1 res by simp
    moreover have "\<forall>c\<in>set ?new1. i \<le> fst c \<and> fst c < i + length (model # rest)" by auto
    moreover have "?new1 \<noteq> []" using n(1) by simp
    moreover have "((model # rest) ! (fst (last ?new1) - i)) (snd (last ?new1)) p = Fulfilled answer"
      using l n(2) by simp
    ultimately show ?thesis using res(1) by (intro exI [of _ ?new1]) simp
  next
    case None
    with a Cons.prems have m: "modelLoop rest (i + 1) p limit le1 c1 = (res, le', calls')" by simp
    from None r1 have rej1: "\<forall>k. k < n \<longrightarrow> (\<exists>e. model k p = Rejected e)" by simp
    from Cons.IH [OF m] obtain new2 where
      n2: "calls' = c1 @ new2" and
      b2: "\<forall>c\<in>set new2. i + 1 \<le> fst c \<and> fst c < i + 1 + length rest" and
      r2: "(case res of
        Some answer \<Rightarrow> new2 \<noteq> [] \<and> (rest ! (fst (last new2) - (i + 1))) (snd (last new2)) p = Fulfilled answer
      | None \<Rightarrow> (\<forall>c\<in>set new2. \<exists>e. (rest ! (fst c - (i + 1))) (snd c) p = Rejected e))"
      by blast
    have idx: "(model # rest) ! (fst c - i) = rest ! (fst c - (i + 1))" if "c \<in> set new2" for c
    proof -
      from b2 that have "i + 1 \<le> fst c" by blast
      then have "fst c - i = Suc (fst c - (i + 1))" by arith
      then show ?thesis by simp
    qed
    have "calls' = calls @ (?new1 @ new2)" using c1 n2 by simp
    moreover have "\<forall>c\<in>set (?new1 @ new2). i \<le> fst c \<and> fst c < i + length (model # rest)"
      using b2 by auto
    moreover have "(case res of
        Some answer \<Rightarrow> (?new1 @ new2) \<noteq> [] \<and>
           ((model # rest) ! (fst (last (?new1 @ new2)) - i)) (snd (last (?new1 @ new2))) p = Fulfilled answer
      | None \<Rightarrow> (\<forall>c\<in>set (?new1 @ new2). \<exists>e. ((model # rest) ! (fst c - i)) (snd c) p = Rejected e))"
    proof (cases res)
      case None
      with r2 have "\<forall>c\<in>set new2. \<exists>e. (rest ! (fst c - (i + 1))) (snd c) p = Rejected e" by simp
      then have "\<forall>c\<in>set new2. \<exists>e. ((model # rest) ! (fst c - i)) (snd c) p = Rejected e"
        using idx by simp
      moreover have "\<forall>c\<in>set ?new1. \<exists>e. ((model # rest) ! (fst c - i)) (snd c) p = Rejected e"
        using rej1 by auto
      ultimately show ?thesis using None by auto
    next
      case (Some answer)
      with r2 have ne: "new2 \<noteq> []" and
        f: "(rest ! (fst (last new2) - (i + 1))) (snd (last new2)) p = Fulfilled answer" by simp_all
      have "last new2 \<in> set new2" using ne by simp
      from idx [OF this] f ne Some show ?thesis by simp
    qed
    ultimately show ?thesis by blast
  qed
qed

lemma modelLoop_skip_failing:
  assumes "\<forall>m\<in>set pre. \<forall>k. \<exists>e. m k p = Rejected e"
  shows "\<exists>le1 new. modelLoop (pre @ rest) i p limit lastError calls =
            modelLoop rest (i + length pre) p limit le1 (calls @ new) \<and>
            (\<forall>c\<in>set new. fst c < i + length pre)"
  using assms
proof (induction pre arbitrary: i lastError calls)
  case Nil
  have "modelLoop ([] @ rest) i p limit lastError calls =
            modelLoop rest (i + length ([]::GenerativeModel list)) p limit lastError (calls @ [])" by simp
  then show ?case by (metis empty_iff empty_set)
next
  case (Cons model pre)
  obtain r1 le1 c1 where a: "attemptLoop model i p limit 0 lastError calls = (r1, le1, c1)"
    by (metis prod_cases3)
  from attemptLoop_spec [OF a] obtain n where
    c1: "c1 = calls @ map (Pair i) [0..<0 + n]" and
    r1: "(case r1 of
          Some answer \<Rightarrow> n > 0 \<and> model (0 + n - 1) p = Fulfilled answer \<and>
             (\<forall>k. 0 \<le> k \<and> k < 0 + n - 1 \<longrightarrow> (\<exists>e. model k p = Rejected e))
        | None \<Rightarrow> (\<forall>k. 0 \<le> k \<and> k < 0 + n \<longrightarrow> (\<exists>e. model k p = Rejected e)))"
    by blast
  have rej: "\<forall>k. \<exists>e. model k p = Rejected e" using Cons.prems by simp
  have none: "r1 = None"
  proof (cases r1)
    case (Some answer)
    with r1 have "model (0 + n - 1) p = Fulfilled answer" by simp
    with rej show ?thesis by (metis promise.distinct(1))
  qed simp
  have "\<forall>m\<in>set pre. \<forall>k. \<exists>e. m k p = Rejected e" using Cons.prems by simp
  from Cons.IH [OF this, of "i + 1" le1 c1] obtain le2 new2 where
    ih: "modelLoop (pre @ rest) (i + 1) p limit le1 c1 =
            modelLoop rest (i + 1 + length pre) p limit le2 (c1 @ new2)"
        "\<forall>c\<in>set new2. fst c < i + 1 + length pre"
    by blast
  have "modelLoop ((model # pre) @ rest) i p limit lastError calls =
          modelLoop rest (i + length (model # pre)) p limit le2 (calls @ (map (Pair i) [0..<n] @ new2))"
    using a none ih(1) c1 by (simp add: add.assoc add.commute)
  moreover have "\<forall>c\<in>set (map (Pair i) [0..<n] @ new2). fst c < i + length (model # pre)"
    using ih(2) by auto
  ultimately show ?case by blast
qed


lemma modelLoop_first_call:
  assumes "ms \<noteq> []" "0 < limit"
  shows "\<exists>res le rest. modelLoop ms i p limit lastError calls = (res, le, calls @ (i, 0) # rest)"
proof -
  from assms(1) obtain model others where ms: "ms = model # others" by (cases ms) auto
  have lim: "int 0 < limit" using assms(2) by simp
  from attemptLoop_calls_once [OF lim, of model i p lastError calls]
  obtain r1 le1 rest1 where
    a: "attemptLoop model i p limit 0 lastError calls = (r1, le1, calls @ (i, 0) # rest1)"
    by blast
  show ?thesis
  proof (cases r1)
    case (Some reply)
    with a ms have "modelLoop ms i p limit lastError calls = (Some reply, le1, calls @ (i, 0) # rest1)"
      by simp
    then show ?thesis by blast
  next
    case None
    obtain res le calls' where
      m: "modelLoop others (i + 1) p limit le1 (calls @ (i, 0) # rest1) = (res, le, calls')"
      by (metis prod_cases3)
    from modelLoop_spec [OF m] obtain new where "calls' = (calls @ (i, 0) # rest1) @ new" by blast
    then have "calls' = calls @ (i, 0) # (rest1 @ new)" by simp
    with None a ms m have
      "modelLoop ms i p limit lastError calls = (res, le, calls @ (i, 0) # (rest1 @ new))"
      by simp
    then show ?thesis by blast
  qed
qed

lemma generateAnswer_generation:
  assumes "models svc \<noteq> []"
    and "findRelevantCode (esClient svc) (packageName payload) (effectiveQuery payload)
           (effectiveMaxSnippets payload) = Fulfilled ctx"
    and "hasGroundedContext ctx \<or> allowUngroundedFallback svc"
    and "modelLoop (models svc) 0 (sentPrompt payload ctx) (max 1 (maxRetries svc)) None [] =
           (res, le, calls)"
  shows "case res of
           Some reply \<Rightarrow>
             (\<exists>r. generateAnswer svc payload = (Fulfilled (Response r), calls) \<and>
                  r_code r = trim reply \<and> r_grounded r = hasGroundedContext ctx \<and>
                  r_context r = (case ctx of Some c \<Rightarrow> map toCitation (ctx_symbols c) | None \<Rightarrow> []) \<and>
                  r_intent r = intent payload \<and> r_packageName r = packageName payload \<and>
                  r_searchQuery r = effectiveQuery payload \<and>
                  (hasGroundedContext ctx \<longrightarrow> r_note r = None))
         | None \<Rightarrow> generateAnswer svc payload = (Fulfilled (ErrorResult (failureMessage le)), calls)"
proof (cases res)
  case None
  with assms show ?thesis
    by (auto simp: generateAnswer_def sentPrompt_def Let_def)
next
  case (Some reply)
  have "(case (if hasGroundedContext ctx then ctx else None) of
           Some c \<Rightarrow> map toCitation (ctx_symbols c) | None \<Rightarrow> []) =
        (case ctx of Some c \<Rightarrow> map toCitation (ctx_symbols c) | None \<Rightarrow> [])"
    by (auto simp: hasGroundedContext_def split: option.splits)
  with Some assms show ?thesis
    by (auto simp: generateAnswer_def sentPrompt_def Let_def)
qed

text \<open>
  C3. Retry boundary. Let generation be reached (retrieval returned, and the context is
  grounded or the ungrounded fallback is allowed), let \<open>maxRetries\<close> be at least 1, and
  let \<open>model\<close> stand at any position of the priority list, every model before it failing
  all its calls. If \<open>model\<close> throws a retryable error at each of its first
  \<open>maxRetries - 1\<close> calls and resolves at the next one, then \<open>generateAnswer\<close> returns a
  success response carrying that reply, the calls to \<open>model\<close> are exactly the attempts
  \<open>0, ..., maxRetries - 1\<close>, and no later model is called.
\<close>

theorem generateAnswer_retry_boundary:
  assumes retr: "findRelevantCode (esClient svc) (packageName payload) (effectiveQuery payload)
           (effectiveMaxSnippets payload) = Fulfilled ctx"
    and reach: "hasGroundedContext ctx \<or> allowUngroundedFallback svc"
    and ms: "models svc = pre @ model # post"
    and n: "1 \<le> maxRetries svc"
    and pre: "\<forall>m\<in>set pre. \<forall>k. \<exists>e. m k (sentPrompt payload ctx) = Rejected e"
    and retry: "\<forall>k. int k < maxRetries svc - 1 \<longrightarrow>
       (\<exists>e. model k (sentPrompt payload ctx) = Rejected e \<and> isRetryableGeminiError e)"
    and ok: "model (nat (maxRetries svc - 1)) (sentPrompt payload ctx) = Fulfilled reply"
  shows "\<exists>r calls. generateAnswer svc payload = (Fulfilled (Response r), calls)
      \<and> r_code r = trim reply
      \<and> filter (\<lambda>c. fst c = length pre) calls = map (Pair (length pre)) [0..<nat (maxRetries svc)]
      \<and> int (length (filter (\<lambda>c. fst c = length pre) calls)) = maxRetries svc
      \<and> (\<forall>c\<in>set calls. fst c \<le> length pre)"
proof -
  let ?p = "sentPrompt payload ctx"
  let ?limit = "max 1 (maxRetries svc)"
  let ?j = "nat (maxRetries svc - 1)"
  have lim: "?limit = maxRetries svc" using n by simp
  from modelLoop_skip_failing [OF pre, of "model # post" 0 ?limit None "[]"]
  obtain le1 new where
    skip: "modelLoop (pre @ model # post) 0 ?p ?limit None [] =
             modelLoop (model # post) (length pre) ?p ?limit le1 new"
    and new: "\<forall>c\<in>set new. fst c < length pre"
    by auto
  have r: "\<forall>k. 0 \<le> k \<and> k < ?j \<longrightarrow> (\<exists>e. model k ?p = Rejected e \<and> isRetryableGeminiError e)"
    using retry by auto
  have j: "int ?j < ?limit" using n by simp
  have "\<exists>le'. attemptLoop model (length pre) ?p ?limit 0 le1 new =
          (Some reply, le', new @ map (Pair (length pre)) [0..<Suc ?j])"
  proof (rule attemptLoop_retry_success)
    show "0 \<le> ?j" by simp
    show "int ?j < ?limit" by (rule j)
    show "model ?j ?p = Fulfilled reply" by (rule ok)
    show "\<forall>k. 0 \<le> k \<and> k < ?j \<longrightarrow> (\<exists>e. model k ?p = Rejected e \<and> isRetryableGeminiError e)"
      by (rule r)
  qed
  then obtain le' where
    a: "attemptLoop model (length pre) ?p ?limit 0 le1 new =
          (Some reply, le', new @ map (Pair (length pre)) [0..<Suc ?j])"
    by blast
  have sj: "Suc ?j = nat (maxRetries svc)" using n by simp
  let ?calls = "new @ map (Pair (length pre)) [0..<nat (maxRetries svc)]"
  have "modelLoop (models svc) 0 ?p ?limit None [] = (Some reply, le', ?calls)"
    using skip a ms sj by simp
  from generateAnswer_generation [OF _ retr reach this] ms
  obtain r where g: "generateAnswer svc payload = (Fulfilled (Response r), ?calls)"
    and code: "r_code r = trim reply"
    by auto
  have f1: "filter (\<lambda>c. fst c = length pre) new = []"
    using new by (auto simp: filter_empty_conv)
  have f2: "filter (\<lambda>c. fst c = length pre) (map (Pair (length pre)) [0..<nat (maxRetries svc)]) =
              map (Pair (length pre)) [0..<nat (maxRetries svc)]"
    by (simp add: filter_map comp_def)
  have f: "filter (\<lambda>c. fst c = length pre) ?calls = map (Pair (length pre)) [0..<nat (maxRetries svc)]"
    using f1 f2 by simp
  have l: "int (length (filter (\<lambda>c. fst c = length pre) ?calls)) = maxRetries svc"
    using n by (simp only: f) simp
  have b: "\<forall>c\<in>set ?calls. fst c \<le> length pre"
    using new by auto
  from g code f l b show ?thesis by blast
qed


text \<open>
  C4. Fallback boundary. Let generation be reached and let the primary model throw a
  non-retryable error whenever it is called. Then the first call goes to the primary
  model, the very next call goes to the fallback model (the second of the list), and no
  later call goes to the primary model again, whatever \<open>maxRetries\<close> is.
\<close>

theorem generateAnswer_fallback_boundary:
  assumes retr: "findRelevantCode (esClient svc) (packageName payload) (effectiveQuery payload)
           (effectiveMaxSnippets payload) = Fulfilled ctx"
    and reach: "hasGroundedContext ctx \<or> allowUngroundedFallback svc"
    and ms: "models svc = primary # fallback # others"
    and fail: "\<forall>k. \<exists>e. primary k (sentPrompt payload ctx) = Rejected e \<and> \<not> isRetryableGeminiError e"
  shows "\<exists>result tail. generateAnswer svc payload = (result, (0, 0) # (1, 0) # tail)
      \<and> (\<forall>c\<in>set tail. fst c \<noteq> 0)"
proof -
  let ?p = "sentPrompt payload ctx"
  let ?limit = "max 1 (maxRetries svc)"
  from fail obtain e where e: "primary 0 ?p = Rejected e" "\<not> isRetryableGeminiError e" by blast
  have lim: "int 0 < ?limit" by simp
  have a1: "attemptLoop primary 0 ?p ?limit 0 None [] = (None, Some e, [(0, 0)])"
    using e by (simp add: attemptLoop.simps [of primary 0 ?p ?limit 0 None "[]"])
  from attemptLoop_calls_once [OF lim, of fallback 1 ?p "Some e" "[(0, 0)]"]
  obtain r2 le2 rest2 where
    a2: "attemptLoop fallback 1 ?p ?limit 0 (Some e) [(0, 0)] = (r2, le2, [(0, 0)] @ (1, 0) # rest2)"
    and rest2: "\<forall>c\<in>set rest2. fst c = 1"
    by blast
  obtain res le calls where
    m: "modelLoop (models svc) 0 ?p ?limit None [] = (res, le, calls)"
    by (metis prod_cases3)
  have "\<exists>tail. calls = (0, 0) # (1, 0) # tail \<and> (\<forall>c\<in>set tail. fst c \<noteq> 0)"
  proof (cases r2)
    case (Some reply)
    with m ms a1 a2 have "calls = (0, 0) # (1, 0) # rest2" by simp
    with rest2 show ?thesis by auto
  next
    case None
    with m ms a1 a2 have
      "modelLoop others 2 ?p ?limit le2 ((0, 0) # (1, 0) # rest2) = (res, le, calls)"
      by (simp add: numeral_2_eq_2)
    from modelLoop_spec [OF this] obtain new where
      "calls = ((0, 0) # (1, 0) # rest2) @ new" "\<forall>c\<in>set new. 2 \<le> fst c \<and> fst c < 2 + length others"
      by blast
    then have "calls = (0, 0) # (1, 0) # (rest2 @ new)" "\<forall>c\<in>set (rest2 @ new). fst c \<noteq> 0"
      using rest2 by auto
    then show ?thesis by blast
  qed
  then obtain tail where t: "calls = (0, 0) # (1, 0) # tail" "\<forall>c\<in>set tail. fst c \<noteq> 0" by blast
  from generateAnswer_generation [OF _ retr reach m] ms
  have "snd (generateAnswer svc payload) = calls"
    by (cases res) auto
  with t have "generateAnswer svc payload = (fst (generateAnswer svc payload), (0, 0) # (1, 0) # tail)"
    by (metis prod.collapse)
  with t(2) show ?thesis by blast
qed

section \<open>Properties of the answer service\<close>

lemma noSymbolsMessage_names:
  "str_includes (noSymbolsMessage pkg q) pkg \<and> str_includes (noSymbolsMessage pkg q) q"
proof -
  have "noSymbolsMessage pkg q =
      ''No relevant symbols found for '' @ pkg @ ('' with query '' @ [CHR 0x22] @ q @ [CHR 0x22])"
    by (simp add: noSymbolsMessage_def)
  then have 1: "str_includes (noSymbolsMessage pkg q) pkg"
    unfolding includes_iff by blast
  have "noSymbolsMessage pkg q =
      (''No relevant symbols found for '' @ pkg @ '' with query '' @ [CHR 0x22]) @ q @ [CHR 0x22]"
    by (simp add: noSymbolsMessage_def)
  then have 2: "str_includes (noSymbolsMessage pkg q) q"
    unfolding includes_iff by blast
  from 1 2 show ?thesis by simp
qed

lemma generateAnswer_rejected_retrieval:
  assumes "models svc \<noteq> []"
    and "findRelevantCode (esClient svc) (packageName payload) (effectiveQuery payload)
           (effectiveMaxSnippets payload) = Fulfilled ctx"
    and "\<not> hasGroundedContext ctx" "\<not> allowUngroundedFallback svc"
  shows "generateAnswer svc payload =
           (Fulfilled (ErrorResult (noSymbolsMessage (packageName payload) (effectiveQuery payload))), [])"
  using assms by (simp add: generateAnswer_def Let_def)

lemma generateAnswer_unconfigured:
  "models svc = [] \<Longrightarrow>
     generateAnswer svc payload = (Fulfilled (ErrorResult ''Gemini API key not configured''), [])"
  by (simp add: generateAnswer_def)

lemma generateAnswer_response_fields:
  "generateAnswer svc payload = (Fulfilled (Response r), calls) \<Longrightarrow>
     r_searchQuery r = effectiveQuery payload \<and> r_intent r = intent payload \<and>
     r_packageName r = packageName payload"
  by (auto simp: generateAnswer_def Let_def
      split: if_splits promise.splits prod.splits option.splits)

text \<open>
  C1. Grounded contract. With no model configured \<open>generateAnswer\<close> returns the
  configuration error before any retrieval; so let a model be configured and let the
  retrieval of the request, for the effective search query (the trimmed \<open>searchQuery\<close>
  when it is given and not blank, the intent otherwise), have returned.

  If it gave a context with at least one symbol match, generation is reached: the promise
  resolves, the call log is not empty and begins with the first attempt on the first
  model. The result is a response exactly when a model call resolved: then the last
  logged call resolved, \<open>code\<close> is its trimmed reply, \<open>grounded\<close> is true, there is no note,
  and \<open>context\<close> holds for each symbol match, in order, the citation with its name, kind,
  file path, doc comment, signature and exported flag, hence at least one entry.
  Otherwise the result is an \<open>{error}\<close> and every logged call threw.

  If retrieval gave no package document or no symbol match and the ungrounded fallback is
  disabled, the result is the \<open>{error}\<close> with the message
  \<open>No relevant symbols found for <package> with query "<effective query>"\<close>, and no
  model call was made.
\<close>

theorem generateAnswer_grounded_contract:
  assumes configured: "models svc \<noteq> []"
    and retr: "findRelevantCode (esClient svc) (packageName payload) (effectiveQuery payload)
           (effectiveMaxSnippets payload) = Fulfilled ctx"
  shows "effectiveQuery payload =
           (case searchQuery payload of
              None \<Rightarrow> intent payload
            | Some q \<Rightarrow> if trim q = [] then intent payload else trim q)
       \<and> (\<forall>c. ctx = Some c \<and> ctx_symbols c \<noteq> [] \<longrightarrow>
            (\<exists>a calls. generateAnswer svc payload = (Fulfilled a, calls) \<and>
               calls \<noteq> [] \<and> hd calls = (0, 0) \<and> fst (last calls) < length (models svc) \<and>
               (case a of
                  Response r \<Rightarrow>
                    (\<exists>reply. (models svc ! fst (last calls)) (snd (last calls))
                                (sentPrompt payload ctx) = Fulfilled reply \<and>
                             r_code r = trim reply) \<and>
                    r_grounded r \<and> r_note r = None \<and>
                    r_intent r = intent payload \<and> r_packageName r = packageName payload \<and>
                    r_searchQuery r = effectiveQuery payload \<and>
                    r_context r =
                      map (\<lambda>s. \<lparr>c_name = sm_name s, c_kind = sm_kind s,
                                 c_file_path = sm_file_path s, c_jsdoc = sm_jsdoc s,
                                 c_signature = sm_signature s,
                                 c_is_exported = sm_is_exported s\<rparr>) (ctx_symbols c) \<and>
                    1 \<le> length (r_context r)
                | ErrorResult msg \<Rightarrow>
                    (\<forall>k\<in>set calls. \<exists>e. (models svc ! fst k) (snd k) (sentPrompt payload ctx) =
                       Rejected e))))
       \<and> ((ctx = None \<or> (\<exists>c. ctx = Some c \<and> ctx_symbols c = [])) \<and>
            \<not> allowUngroundedFallback svc \<longrightarrow>
            generateAnswer svc payload =
              (Fulfilled (ErrorResult
                 (''No relevant symbols found for '' @ packageName payload @ '' with query '' @
                  [CHR 0x22] @ effectiveQuery payload @ [CHR 0x22])), [])
            \<and> str_includes
                 (''No relevant symbols found for '' @ packageName payload @ '' with query '' @
                  [CHR 0x22] @ effectiveQuery payload @ [CHR 0x22]) (packageName payload)
            \<and> str_includes
                 (''No relevant symbols found for '' @ packageName payload @ '' with query '' @
                  [CHR 0x22] @ effectiveQuery payload @ [CHR 0x22]) (effectiveQuery payload))"
proof (intro conjI allI impI)
  show "effectiveQuery payload =
           (case searchQuery payload of
              None \<Rightarrow> intent payload
            | Some q \<Rightarrow> if trim q = [] then intent payload else trim q)"
    by (simp add: effectiveQuery_def)
next
  fix c
  assume c: "ctx = Some c \<and> ctx_symbols c \<noteq> []"
  then have g: "hasGroundedContext ctx" by (simp add: hasGroundedContext_def)
  let ?p = "sentPrompt payload ctx"
  let ?cite = "\<lambda>s. \<lparr>c_name = sm_name s, c_kind = sm_kind s,
                                 c_file_path = sm_file_path s, c_jsdoc = sm_jsdoc s,
                                 c_signature = sm_signature s,
                                 c_is_exported = sm_is_exported s\<rparr>"
  have cite: "toCitation = ?cite" by (rule ext) (simp add: toCitation_def)
  have lim: "0 < max 1 (maxRetries svc)" by simp
  from modelLoop_first_call [OF configured lim, of 0 ?p None "[]"]
  obtain res le rest where
    m: "modelLoop (models svc) 0 ?p (max 1 (maxRetries svc)) None [] = (res, le, [] @ (0, 0) # rest)"
    by blast
  let ?calls = "(0, 0) # rest"
  have m': "modelLoop (models svc) 0 ?p (max 1 (maxRetries svc)) None [] = (res, le, ?calls)"
    using m by simp
  from modelLoop_spec [OF m'] obtain new where
    new: "?calls = [] @ new" and
    bound: "\<forall>k\<in>set new. 0 \<le> fst k \<and> fst k < 0 + length (models svc)" and
    out: "(case res of
        Some answer \<Rightarrow> new \<noteq> [] \<and>
           (models svc ! (fst (last new) - 0)) (snd (last new)) ?p = Fulfilled answer
      | None \<Rightarrow> (\<forall>k\<in>set new. \<exists>e. (models svc ! (fst k - 0)) (snd k) ?p = Rejected e))"
    by blast
  from new have new': "new = ?calls" by simp
  have "last ?calls \<in> set ?calls" by (rule last_in_set) simp
  with bound new' have b: "fst (last ?calls) < length (models svc)" by auto
  have gen: "case res of
           Some reply \<Rightarrow>
             (\<exists>r. generateAnswer svc payload = (Fulfilled (Response r), ?calls) \<and>
                  r_code r = trim reply \<and> r_grounded r = hasGroundedContext ctx \<and>
                  r_context r = (case ctx of Some c \<Rightarrow> map toCitation (ctx_symbols c) | None \<Rightarrow> []) \<and>
                  r_intent r = intent payload \<and> r_packageName r = packageName payload \<and>
                  r_searchQuery r = effectiveQuery payload \<and>
                  (hasGroundedContext ctx \<longrightarrow> r_note r = None))
         | None \<Rightarrow> generateAnswer svc payload = (Fulfilled (ErrorResult (failureMessage le)), ?calls)"
    by (rule generateAnswer_generation [OF configured retr _ m']) (simp add: g)
  show "\<exists>a calls. generateAnswer svc payload = (Fulfilled a, calls) \<and>
               calls \<noteq> [] \<and> hd calls = (0, 0) \<and> fst (last calls) < length (models svc) \<and>
               (case a of
                  Response r \<Rightarrow>
                    (\<exists>reply. (models svc ! fst (last calls)) (snd (last calls))
                                (sentPrompt payload ctx) = Fulfilled reply \<and>
                             r_code r = trim reply) \<and>
                    r_grounded r \<and> r_note r = None \<and>
                    r_intent r = intent payload \<and> r_packageName r = packageName payload \<and>
                    r_searchQuery r = effectiveQuery payload \<and>
                    r_context r = map ?cite (ctx_symbols c) \<and>
                    1 \<le> length (r_context r)
                | ErrorResult msg \<Rightarrow>
                    (\<forall>k\<in>set calls. \<exists>e. (models svc ! fst k) (snd k) (sentPrompt payload ctx) =
                       Rejected e))"
  proof (cases res)
    case None
    with gen have ga: "generateAnswer svc payload =
        (Fulfilled (ErrorResult (failureMessage le)), ?calls)" by simp
    from None out new' have
      rej: "\<forall>k\<in>set ?calls. \<exists>e. (models svc ! fst k) (snd k) ?p = Rejected e" by simp
    show ?thesis
      by (intro exI [of _ "ErrorResult (failureMessage le)"] exI [of _ ?calls])
         (use ga b rej in simp)
  next
    case (Some reply)
    with gen obtain r where r: "generateAnswer svc payload = (Fulfilled (Response r), ?calls)"
      "r_code r = trim reply" "r_grounded r = hasGroundedContext ctx"
      "r_context r = (case ctx of Some c \<Rightarrow> map toCitation (ctx_symbols c) | None \<Rightarrow> [])"
      "r_intent r = intent payload" "r_packageName r = packageName payload"
      "r_searchQuery r = effectiveQuery payload" "hasGroundedContext ctx \<longrightarrow> r_note r = None"
      by auto
    from Some out new' have
      f: "(models svc ! fst (last ?calls)) (snd (last ?calls)) ?p = Fulfilled reply" by simp
    have ctxt: "r_context r = map ?cite (ctx_symbols c)" using r(4) c cite by simp
    have len: "1 \<le> length (r_context r)"
      using c by (cases "ctx_symbols c") (simp_all add: ctxt)
    have gr: "r_grounded r" "r_note r = None" using r(3,8) g by simp_all
    have ex: "\<exists>reply. (models svc ! fst (last ?calls)) (snd (last ?calls)) ?p = Fulfilled reply \<and>
        r_code r = trim reply"
      using f r(2) by (intro exI [of _ reply]) simp
    show ?thesis
      by (intro exI [of _ "Response r"] exI [of _ ?calls])
         (use r(1,5,6,7) b ex gr ctxt len in simp)
  qed
next
  assume a: "(ctx = None \<or> (\<exists>c. ctx = Some c \<and> ctx_symbols c = [])) \<and> \<not> allowUngroundedFallback svc"
  then have "\<not> hasGroundedContext ctx" by (auto simp: hasGroundedContext_def)
  with a have "generateAnswer svc payload =
      (Fulfilled (ErrorResult (noSymbolsMessage (packageName payload) (effectiveQuery payload))), [])"
    using generateAnswer_rejected_retrieval [OF configured retr] by simp
  then show "generateAnswer svc payload =
              (Fulfilled (ErrorResult
                 (''No relevant symbols found for '' @ packageName payload @ '' with query '' @
                  [CHR 0x22] @ effectiveQuery payload @ [CHR 0x22])), [])"
    by (simp add: noSymbolsMessage_def)
next
  show "str_includes
                 (''No relevant symbols found for '' @ packageName payload @ '' with query '' @
                  [CHR 0x22] @ effectiveQuery payload @ [CHR 0x22]) (packageName payload)"
    using noSymbolsMessage_names [of "packageName payload" "effectiveQuery payload"]
    by (simp add: noSymbolsMessage_def)
next
  show "str_includes
                 (''No relevant symbols found for '' @ packageName payload @ '' with query '' @
                  [CHR 0x22] @ effectiveQuery payload @ [CHR 0x22]) (effectiveQuery payload)"
    using noSymbolsMessage_names [of "packageName payload" "effectiveQuery payload"]
    by (simp add: noSymbolsMessage_def)
qed

section \<open>Properties of context retrieval\<close>

lemma toSymbolMatch_snippet:
  "length (snippet (toSymbolMatch s)) \<le> 160 \<and>
   snippet (toSymbolMatch s) = take 160 (orEmpty (sm_implementation (toSymbolMatch s))) \<and>
   sm_implementation (toSymbolMatch s) = es_implementation s"
  by (simp add: toSymbolMatch_def)

lemma set_slice0: "set (slice0 n xs) \<subseteq> set xs"
  by (auto simp: slice0_def dest: in_set_takeD)

lemma set_sortByRelevance: "set (sortByRelevance xs) = set xs"
  by (simp add: sortByRelevance_def)

lemma returnedContext_Some:
  "returnedContext d ms = Fulfilled (Some c) \<Longrightarrow> ctx_symbols c = ms \<and> ctx_source c = d"
  by (auto simp: returnedContext_def split: outcome.splits)

lemma findRelevantCode_symbols:
  assumes "findRelevantCode es pkg q n = Fulfilled (Some c)"
  shows "\<exists>hit. searchPackage es pkg q n = Fulfilled (Some hit) \<and>
     (if hit_inner_hits hit \<noteq> [] then ctx_symbols c = map toSymbolMatch (hit_inner_hits hit)
      else case getDoc es (hit_id hit) of
             Rejected e \<Rightarrow> ctx_symbols c = []
           | Fulfilled None \<Rightarrow> ctx_symbols c = []
           | Fulfilled (Some d) \<Rightarrow>
               ctx_symbols c = map toSymbolMatch (slice0 n (sortByRelevance
                  (filter hasImplementation (case fd_symbols d of None \<Rightarrow> [] | Some l \<Rightarrow> l)))))"
proof (cases "searchPackage es pkg q n")
  case (Rejected e)
  with assms show ?thesis by (simp add: findRelevantCode_def)
next
  case (Fulfilled h)
  show ?thesis
  proof (cases h)
    case None
    with Fulfilled assms show ?thesis by (simp add: findRelevantCode_def)
  next
    case (Some hit)
    show ?thesis
    proof (cases "hit_inner_hits hit = []")
      case False
      with Fulfilled Some assms have "ctx_symbols c = map toSymbolMatch (hit_inner_hits hit)"
        by (auto simp: findRelevantCode_def Let_def dest!: returnedContext_Some)
      with Fulfilled Some False show ?thesis by simp
    next
      case True
      show ?thesis
      proof (cases "getDoc es (hit_id hit)")
        case (Rejected e)
        with Fulfilled Some True assms have "ctx_symbols c = []"
          by (auto simp: findRelevantCode_def Let_def dest!: returnedContext_Some)
        with Fulfilled Some True Rejected show ?thesis by simp
      next
        case g: (Fulfilled doc)
        show ?thesis
        proof (cases doc)
          case None
          with Fulfilled Some True g assms have "ctx_symbols c = []"
            by (auto simp: findRelevantCode_def Let_def emptyDoc_def slice0_def sortByRelevance_def dest!: returnedContext_Some)
          with Fulfilled Some True g None show ?thesis by simp
        next
          case d: (Some d)
          with Fulfilled Some True g assms have
            "ctx_symbols c = map toSymbolMatch (slice0 n (sortByRelevance
                  (filter hasImplementation (case fd_symbols d of None \<Rightarrow> [] | Some l \<Rightarrow> l))))"
            by (auto simp: findRelevantCode_def Let_def dest!: returnedContext_Some)
          with Fulfilled Some True g d show ?thesis by simp
        qed
      qed
    qed
  qed
qed

lemma slice0_Nil: "slice0 n [] = []"
  by (simp add: slice0_def)

text \<open>
  C9. Truncation. Every symbol match that \<open>findRelevantCode\<close> or \<open>fetchSymbolContext\<close>
  returns, on the inner-hits path or on the document-fallback path, is the image of a
  stored symbol (an inner hit of the search, or a symbol of the fetched document); its
  snippet is the first 160 characters of the implementation, so it has at most 160
  characters, and its \<open>implementation\<close> field is the stored implementation, untruncated.
\<close>

theorem snippet_truncated:
  "(findRelevantCode es pkg q n = Fulfilled (Some c) \<longrightarrow>
      (\<forall>m\<in>set (ctx_symbols c).
         length (snippet m) \<le> 160 \<and>
         snippet m = take 160 (orEmpty (sm_implementation m)) \<and>
         (\<exists>hit s. searchPackage es pkg q n = Fulfilled (Some hit) \<and>
            (s \<in> set (hit_inner_hits hit) \<or>
             (\<exists>d l. getDoc es (hit_id hit) = Fulfilled (Some d) \<and> fd_symbols d = Some l \<and>
                    s \<in> set l)) \<and>
            m = toSymbolMatch s \<and> sm_implementation m = es_implementation s)))
   \<and> (fetchSymbolContext es docId q n = Fulfilled ms \<longrightarrow>
      (\<forall>m\<in>set ms.
         length (snippet m) \<le> 160 \<and>
         snippet m = take 160 (orEmpty (sm_implementation m)) \<and>
         (\<exists>s. ((\<exists>inner. searchDoc es docId q n = Fulfilled inner \<and> s \<in> set inner) \<or>
               (\<exists>d l. getDoc es docId = Fulfilled (Some d) \<and> fd_symbols d = Some l \<and>
                      s \<in> set l)) \<and>
            m = toSymbolMatch s \<and> sm_implementation m = es_implementation s)))"
proof (intro conjI impI ballI)
  fix m
  assume r: "findRelevantCode es pkg q n = Fulfilled (Some c)" and m: "m \<in> set (ctx_symbols c)"
  from findRelevantCode_symbols [OF r] obtain hit where
    hit: "searchPackage es pkg q n = Fulfilled (Some hit)" and
    sy: "if hit_inner_hits hit \<noteq> [] then ctx_symbols c = map toSymbolMatch (hit_inner_hits hit)
      else case getDoc es (hit_id hit) of
             Rejected e \<Rightarrow> ctx_symbols c = []
           | Fulfilled None \<Rightarrow> ctx_symbols c = []
           | Fulfilled (Some d) \<Rightarrow>
               ctx_symbols c = map toSymbolMatch (slice0 n (sortByRelevance
                  (filter hasImplementation (case fd_symbols d of None \<Rightarrow> [] | Some l \<Rightarrow> l))))"
    by blast
  have src: "\<exists>s. (s \<in> set (hit_inner_hits hit) \<or>
             (\<exists>d l. getDoc es (hit_id hit) = Fulfilled (Some d) \<and> fd_symbols d = Some l \<and>
                    s \<in> set l)) \<and> m = toSymbolMatch s"
  proof (cases "hit_inner_hits hit = []")
    case False
    with sy have "ctx_symbols c = map toSymbolMatch (hit_inner_hits hit)" by simp
    with m obtain s where "s \<in> set (hit_inner_hits hit)" "m = toSymbolMatch s" by auto
    then show ?thesis by (intro exI [of _ s]) simp
  next
    case True
    show ?thesis
    proof (cases "getDoc es (hit_id hit)")
      case (Rejected e)
      with sy True m show ?thesis by simp
    next
      case (Fulfilled doc)
      show ?thesis
      proof (cases doc)
        case None
        with sy True m Fulfilled show ?thesis by simp
      next
        case (Some d)
        with sy True Fulfilled have
          cs: "ctx_symbols c = map toSymbolMatch (slice0 n (sortByRelevance
                  (filter hasImplementation (case fd_symbols d of None \<Rightarrow> [] | Some l \<Rightarrow> l))))"
          by simp
        show ?thesis
        proof (cases "fd_symbols d")
          case None
          with cs m show ?thesis by (simp add: slice0_Nil sortByRelevance_def)
        next
          case l: (Some l)
          with cs m obtain s where
            s: "s \<in> set (slice0 n (sortByRelevance (filter hasImplementation l)))"
               "m = toSymbolMatch s" by auto
          from s(1) have "s \<in> set (sortByRelevance (filter hasImplementation l))"
            by (rule subsetD [OF set_slice0])
          then have "s \<in> set l" by (simp add: set_sortByRelevance)
          with s(2) Fulfilled Some l show ?thesis by (intro exI [of _ s]) simp
        qed
      qed
    qed
  qed
  then obtain s where s: "s \<in> set (hit_inner_hits hit) \<or>
             (\<exists>d l. getDoc es (hit_id hit) = Fulfilled (Some d) \<and> fd_symbols d = Some l \<and>
                    s \<in> set l)" "m = toSymbolMatch s" by blast
  show "length (snippet m) \<le> 160" using s(2) toSymbolMatch_snippet by simp
  show "snippet m = take 160 (orEmpty (sm_implementation m))"
    using s(2) toSymbolMatch_snippet by simp
  have "sm_implementation m = es_implementation s" using s(2) toSymbolMatch_snippet by simp
  with hit s show "\<exists>hit s. searchPackage es pkg q n = Fulfilled (Some hit) \<and>
            (s \<in> set (hit_inner_hits hit) \<or>
             (\<exists>d l. getDoc es (hit_id hit) = Fulfilled (Some d) \<and> fd_symbols d = Some l \<and>
                    s \<in> set l)) \<and>
            m = toSymbolMatch s \<and> sm_implementation m = es_implementation s"
    by (intro exI [of _ hit] exI [of _ s]) simp
next
  fix m
  assume r: "fetchSymbolContext es docId q n = Fulfilled ms" and m: "m \<in> set ms"
  have src: "\<exists>s. ((\<exists>inner. searchDoc es docId q n = Fulfilled inner \<and> s \<in> set inner) \<or>
               (\<exists>d l. getDoc es docId = Fulfilled (Some d) \<and> fd_symbols d = Some l \<and>
                      s \<in> set l)) \<and> m = toSymbolMatch s"
  proof (cases "searchDoc es docId q n")
    case (Rejected e)
    with r show ?thesis by (simp add: fetchSymbolContext_def)
  next
    case (Fulfilled inner)
    show ?thesis
    proof (cases "inner = []")
      case False
      with r Fulfilled have "ms = map toSymbolMatch inner" by (simp add: fetchSymbolContext_def)
      with m obtain s where "s \<in> set inner" "m = toSymbolMatch s" by auto
      with Fulfilled show ?thesis by (intro exI [of _ s]) simp
    next
      case True
      show ?thesis
      proof (cases "getDoc es docId")
        case (Rejected e)
        with r Fulfilled True m show ?thesis by (simp add: fetchSymbolContext_def)
      next
        case g: (Fulfilled doc)
        show ?thesis
        proof (cases doc)
          case None
          with r Fulfilled True g m show ?thesis by (simp add: fetchSymbolContext_def slice0_Nil)
        next
          case (Some d)
          show ?thesis
          proof (cases "fd_symbols d")
            case None
            with r Fulfilled True g Some m show ?thesis
              by (simp add: fetchSymbolContext_def slice0_Nil)
          next
            case l: (Some l)
            with r Fulfilled True g Some have "ms = map toSymbolMatch (slice0 n l)"
              by (simp add: fetchSymbolContext_def)
            with m obtain s where s: "s \<in> set (slice0 n l)" "m = toSymbolMatch s" by auto
            from s(1) have "s \<in> set l" by (rule subsetD [OF set_slice0])
            with s(2) g Some l show ?thesis by (intro exI [of _ s]) simp
          qed
        qed
      qed
    qed
  qed
  then obtain s where s: "(\<exists>inner. searchDoc es docId q n = Fulfilled inner \<and> s \<in> set inner) \<or>
               (\<exists>d l. getDoc es docId = Fulfilled (Some d) \<and> fd_symbols d = Some l \<and>
                      s \<in> set l)" "m = toSymbolMatch s" by blast
  show "length (snippet m) \<le> 160" using s(2) toSymbolMatch_snippet by simp
  show "snippet m = take 160 (orEmpty (sm_implementation m))"
    using s(2) toSymbolMatch_snippet by simp
  have "sm_implementation m = es_implementation s" using s(2) toSymbolMatch_snippet by simp
  with s show "\<exists>s. ((\<exists>inner. searchDoc es docId q n = Fulfilled inner \<and> s \<in> set inner) \<or>
               (\<exists>d l. getDoc es docId = Fulfilled (Some d) \<and> fd_symbols d = Some l \<and>
                      s \<in> set l)) \<and>
            m = toSymbolMatch s \<and> sm_implementation m = es_implementation s"
    by (intro exI [of _ s]) simp
qed

section \<open>Failures during context retrieval\<close>







section \<open>The properties at concrete inputs\<close>

lemma reqZod_query:
  "effectiveQuery reqZod = ''create a schema and parse data''"
  "effectiveMaxSnippets reqZod = 3"
  "packageName reqZod = ''zod''"
  by (simp_all add: effectiveQuery_def effectiveMaxSnippets_def reqZod_def)

lemma reqParse_query:
  "effectiveQuery reqParse = ''safeParse''"
  "effectiveMaxSnippets reqParse = 2"
  "packageName reqParse = ''zod''"
  "intent reqParse = ''validate user input''"
  by (simp_all add: effectiveQuery_def effectiveMaxSnippets_def reqParse_def trim_def
      isWhiteSpace_def)

lemma symParse_match:
  "snippet (toSymbolMatch symParse) = replicate 160 CHR ''x''"
  "sm_implementation (toSymbolMatch symParse) = Some (replicate 200 CHR ''x'')"
  by (simp_all add: toSymbolMatch_def symParse_def orEmpty_def)

lemma zodDoc_texts:
  "extractTextField (readme_content zodDoc) = Returns ''Zod''"
  "extractTextField (code_examples zodDoc) = Returns []"
  "doc_exports zodDoc = None"
  by (simp_all add: zodDoc_def)

lemma returnedContext_zodDoc: "returnedContext zodDoc ms = Fulfilled (Some (ctxZod ms))"
  by (simp add: returnedContext_def zodDoc_texts ctxZod_def)


lemma extractTextField_examples:
  "extractTextField (JObject [(''chunks'', JArray [JObject [(''text'', JString ''a'')],
      JObject [(''text'', JNumber 5)], JObject [], JString ''b''])]) =
     Returns (''a'' @ [CHR 0x0A] @ ''5'' @ [CHR 0x0A, CHR 0x0A])"
  "extractTextField (JArray [JString ''a'', JNull, JArray [JString ''b'']]) =
     Returns (''a'' @ [CHR 0x0A, CHR 0x0A] @ ''b'')"
  "extractTextField (JObject [(''chunks'', JArray [JUndefined])]) =
     Throws (cannotReadText ''undefined'')"
  by code_simp+

lemma findRelevantCode_esInnerHits:
  "findRelevantCode esInnerHits pkg q n = Fulfilled (Some (ctxZod [toSymbolMatch symParse]))"
  by (simp add: findRelevantCode_def esInnerHits_def zodHit_def returnedContext_zodDoc)

lemma findRelevantCode_esDocFallback:
  "findRelevantCode esDocFallback pkg q 3 = Fulfilled (Some (ctxZod [toSymbolMatch symParse]))"
  by (simp add: findRelevantCode_def esDocFallback_def zodHit_def returnedContext_zodDoc
      hasImplementation_def symParse_def sortByRelevance_def slice0_def)

lemma findRelevantCode_esNoSymbols:
  "findRelevantCode esNoSymbols pkg q n = Fulfilled (Some (ctxZod []))"
  by (simp add: findRelevantCode_def esNoSymbols_def zodHit_def returnedContext_zodDoc
      sortByRelevance_def slice0_Nil)

lemma findRelevantCode_esGetFails:
  "findRelevantCode esGetFails pkg q n = Fulfilled (Some (ctxZod []))"
  by (simp add: findRelevantCode_def esGetFails_def zodHit_def returnedContext_zodDoc)

lemma service_sel:
  "esClient (service es ms n allow) = es" "models (service es ms n allow) = ms"
  "maxRetries (service es ms n allow) = n" "allowUngroundedFallback (service es ms n allow) = allow"
  by (simp_all add: service_def)

lemma grounded_ctxZod:
  "hasGroundedContext (Some (ctxZod [m]))" "\<not> hasGroundedContext (Some (ctxZod []))"
  "ctx_symbols (ctxZod ms) = ms"
  by (simp_all add: hasGroundedContext_def ctxZod_def)

lemma retryable_503: "isRetryableGeminiError (ErrorObject ''503 Service Unavailable'')"
  by code_simp

lemma not_retryable_key: "\<not> isRetryableGeminiError (ErrorObject ''API key not valid'')"
  by code_simp

lemma trim_examples: "trim ''ok'' = ''ok''" "trim '' const s = z.string(); '' = ''const s = z.string();''"
  by (simp_all add: trim_def isWhiteSpace_def)

theorem generateAnswer_grounded_contract_witness:
  "(\<exists>r. generateAnswer (service esInnerHits [modelOk] 1 False) reqParse =
         (Fulfilled (Response r), [(0, 0)]) \<and>
       r_grounded r \<and> r_note r = None \<and> r_searchQuery r = ''safeParse'' \<and>
       r_context r =
         [\<lparr>c_name = ''parse'', c_kind = ''function'', c_file_path = ''src/types.ts'',
           c_jsdoc = None, c_signature = Some ''function parse(data)'', c_is_exported = True\<rparr>] \<and>
       r_code r = ''const s = z.string();'')
   \<and> (\<exists>msg. generateAnswer (service esInnerHits [modelBroken] 1 False) reqParse =
         (Fulfilled (ErrorResult msg), [(0, 0)]))
   \<and> generateAnswer (service esNoSymbols [modelOk] 1 False) reqParse =
       (Fulfilled (ErrorResult (''No relevant symbols found for zod with query '' @ [CHR 0x22] @
          ''safeParse'' @ [CHR 0x22])), [])"
proof -
  let ?m = "toSymbolMatch symParse"
  let ?ctx = "Some (ctxZod [?m])"
  have pre: "?ctx = Some (ctxZod [?m]) \<and> ctx_symbols (ctxZod [?m]) \<noteq> []"
    by (simp add: grounded_ctxZod)
  let ?svc = "service esInnerHits [modelOk] 1 False"
  have configured: "models ?svc \<noteq> []" by (simp add: service_sel)
  have retr: "findRelevantCode (esClient ?svc) (packageName reqParse) (effectiveQuery reqParse)
      (effectiveMaxSnippets reqParse) = Fulfilled ?ctx"
    by (simp add: service_sel findRelevantCode_esInnerHits)
  have ev: "snd (generateAnswer ?svc reqParse) = [(0, 0)]"
    by (simp add: generateAnswer_def service_sel findRelevantCode_esInnerHits
        grounded_ctxZod Let_def attemptLoop.simps modelOk_def)
  note g = generateAnswer_grounded_contract [OF configured retr, THEN conjunct2, THEN conjunct1,
      THEN spec, of "ctxZod [?m]", THEN mp, OF pre]
  from g obtain a calls where ga: "generateAnswer ?svc reqParse = (Fulfilled a, calls)"
    and cs: "case a of
        Response r \<Rightarrow>
          (\<exists>reply. (models ?svc ! fst (last calls)) (snd (last calls))
                      (sentPrompt reqParse ?ctx) = Fulfilled reply \<and>
                   r_code r = trim reply) \<and>
          r_grounded r \<and> r_note r = None \<and>
          r_intent r = intent reqParse \<and> r_packageName r = packageName reqParse \<and>
          r_searchQuery r = effectiveQuery reqParse \<and>
          r_context r =
            map (\<lambda>s. \<lparr>c_name = sm_name s, c_kind = sm_kind s,
                       c_file_path = sm_file_path s, c_jsdoc = sm_jsdoc s,
                       c_signature = sm_signature s,
                       c_is_exported = sm_is_exported s\<rparr>) (ctx_symbols (ctxZod [?m])) \<and>
          1 \<le> length (r_context r)
      | ErrorResult msg \<Rightarrow>
          (\<forall>k\<in>set calls. \<exists>e. (models ?svc ! fst k) (snd k) (sentPrompt reqParse ?ctx) =
             Rejected e)"
    by blast
  from ga ev have c: "calls = [(0, 0)]" by simp
  have 1: "\<exists>r. generateAnswer ?svc reqParse = (Fulfilled (Response r), [(0, 0)]) \<and>
       r_grounded r \<and> r_note r = None \<and> r_searchQuery r = ''safeParse'' \<and>
       r_context r =
         [\<lparr>c_name = ''parse'', c_kind = ''function'', c_file_path = ''src/types.ts'',
           c_jsdoc = None, c_signature = Some ''function parse(data)'', c_is_exported = True\<rparr>] \<and>
       r_code r = ''const s = z.string();''"
  proof (cases a)
    case (ErrorResult msg)
    with cs c have "\<exists>e. modelOk 0 (sentPrompt reqParse ?ctx) = Rejected e"
      by (simp add: service_sel)
    then show ?thesis by (simp add: modelOk_def)
  next
    case (Response r)
    with cs c obtain reply where
      reply: "modelOk 0 (sentPrompt reqParse ?ctx) = Fulfilled reply" "r_code r = trim reply"
      by (auto simp: service_sel)
    from reply(1) have "reply = '' const s = z.string(); ''" by (simp add: modelOk_def)
    with reply(2) have code: "r_code r = ''const s = z.string();''"
      by (simp add: trim_examples)
    from Response cs have f: "r_grounded r" "r_note r = None" "r_searchQuery r = ''safeParse''"
      by (simp_all add: reqParse_query)
    from Response cs have "r_context r =
            map (\<lambda>s. \<lparr>c_name = sm_name s, c_kind = sm_kind s,
                       c_file_path = sm_file_path s, c_jsdoc = sm_jsdoc s,
                       c_signature = sm_signature s,
                       c_is_exported = sm_is_exported s\<rparr>) (ctx_symbols (ctxZod [?m]))"
      by simp
    then have ctxt: "r_context r =
         [\<lparr>c_name = ''parse'', c_kind = ''function'', c_file_path = ''src/types.ts'',
           c_jsdoc = None, c_signature = Some ''function parse(data)'', c_is_exported = True\<rparr>]"
      by (simp add: grounded_ctxZod toSymbolMatch_def symParse_def)
    from ga c Response f ctxt code show ?thesis by simp
  qed
  let ?svcB = "service esInnerHits [modelBroken] 1 False"
  have configuredB: "models ?svcB \<noteq> []" by (simp add: service_sel)
  have retrB: "findRelevantCode (esClient ?svcB) (packageName reqParse) (effectiveQuery reqParse)
      (effectiveMaxSnippets reqParse) = Fulfilled ?ctx"
    by (simp add: service_sel findRelevantCode_esInnerHits)
  have evB: "snd (generateAnswer ?svcB reqParse) = [(0, 0)]"
    by (simp add: generateAnswer_def service_sel findRelevantCode_esInnerHits
        grounded_ctxZod Let_def attemptLoop.simps modelBroken_def not_retryable_key)
  note gB = generateAnswer_grounded_contract [OF configuredB retrB, THEN conjunct2, THEN conjunct1,
      THEN spec, of "ctxZod [?m]", THEN mp, OF pre]
  from gB obtain aB callsB where gaB: "generateAnswer ?svcB reqParse = (Fulfilled aB, callsB)"
    and csB: "case aB of
        Response r \<Rightarrow>
          (\<exists>reply. (models ?svcB ! fst (last callsB)) (snd (last callsB))
                      (sentPrompt reqParse ?ctx) = Fulfilled reply \<and>
                   r_code r = trim reply) \<and>
          r_grounded r \<and> r_note r = None \<and>
          r_intent r = intent reqParse \<and> r_packageName r = packageName reqParse \<and>
          r_searchQuery r = effectiveQuery reqParse \<and>
          r_context r =
            map (\<lambda>s. \<lparr>c_name = sm_name s, c_kind = sm_kind s,
                       c_file_path = sm_file_path s, c_jsdoc = sm_jsdoc s,
                       c_signature = sm_signature s,
                       c_is_exported = sm_is_exported s\<rparr>) (ctx_symbols (ctxZod [?m])) \<and>
          1 \<le> length (r_context r)
      | ErrorResult msg \<Rightarrow>
          (\<forall>k\<in>set callsB. \<exists>e. (models ?svcB ! fst k) (snd k) (sentPrompt reqParse ?ctx) =
             Rejected e)"
    by blast
  from gaB evB have cB: "callsB = [(0, 0)]" by simp
  have 2: "\<exists>msg. generateAnswer ?svcB reqParse = (Fulfilled (ErrorResult msg), [(0, 0)])"
  proof (cases aB)
    case (ErrorResult msg)
    with gaB cB show ?thesis by simp
  next
    case (Response r)
    with csB cB have "\<exists>reply. modelBroken 0 (sentPrompt reqParse ?ctx) = Fulfilled reply"
      by (auto simp: service_sel)
    then show ?thesis by (simp add: modelBroken_def)
  qed
  let ?svc2 = "service esNoSymbols [modelOk] 1 False"
  have configured2: "models ?svc2 \<noteq> []" by (simp add: service_sel)
  have retr2: "findRelevantCode (esClient ?svc2) (packageName reqParse) (effectiveQuery reqParse)
      (effectiveMaxSnippets reqParse) = Fulfilled (Some (ctxZod []))"
    by (simp add: service_sel findRelevantCode_esNoSymbols)
  have pre2: "(Some (ctxZod []) = None \<or>
      (\<exists>c. Some (ctxZod []) = Some c \<and> ctx_symbols c = [])) \<and> \<not> allowUngroundedFallback ?svc2"
    by (simp add: grounded_ctxZod service_sel)
  note z = generateAnswer_grounded_contract [OF configured2 retr2, THEN conjunct2, THEN conjunct2,
      THEN mp, OF pre2, THEN conjunct1]
  from z have 3: "generateAnswer ?svc2 reqParse =
       (Fulfilled (ErrorResult (''No relevant symbols found for zod with query '' @ [CHR 0x22] @
          ''safeParse'' @ [CHR 0x22])), [])"
    by (simp add: reqParse_query)
  from 1 2 3 show ?thesis by simp
qed

theorem generateAnswer_retry_boundary_witness:
  "\<exists>r. generateAnswer (service esInnerHits [modelFlaky, modelOk] 3 False) reqZod =
         (Fulfilled (Response r), [(0, 0), (0, 1), (0, 2)]) \<and> r_code r = ''ok''"
proof -
  let ?svc = "service esInnerHits [modelFlaky, modelOk] 3 False"
  let ?ctx = "Some (ctxZod [toSymbolMatch symParse])"
  have retr: "findRelevantCode (esClient ?svc) (packageName reqZod) (effectiveQuery reqZod)
      (effectiveMaxSnippets reqZod) = Fulfilled ?ctx"
    by (simp add: service_sel reqZod_query findRelevantCode_esInnerHits)
  have reach: "hasGroundedContext ?ctx \<or> allowUngroundedFallback ?svc"
    by (simp add: grounded_ctxZod)
  have ms: "models ?svc = [] @ modelFlaky # [modelOk]" by (simp add: service_sel)
  have n: "1 \<le> maxRetries ?svc" by (simp add: service_sel)
  have pre: "\<forall>m\<in>set []. \<forall>k. \<exists>e. m k (sentPrompt reqZod ?ctx) = Rejected e" by simp
  have retry: "\<forall>k. int k < maxRetries ?svc - 1 \<longrightarrow>
       (\<exists>e. modelFlaky k (sentPrompt reqZod ?ctx) = Rejected e \<and> isRetryableGeminiError e)"
    by (simp add: service_sel modelFlaky_def retryable_503)
  have ok: "modelFlaky (nat (maxRetries ?svc - 1)) (sentPrompt reqZod ?ctx) = Fulfilled ''ok''"
    by (simp add: service_sel modelFlaky_def)
  from generateAnswer_retry_boundary [OF retr reach ms n pre retry ok]
  obtain r calls where g: "generateAnswer ?svc reqZod = (Fulfilled (Response r), calls)"
    and code: "r_code r = trim ''ok''"
    and f: "filter (\<lambda>c. fst c = length ([]::GenerativeModel list)) calls =
              map (Pair (length ([]::GenerativeModel list))) [0..<nat (maxRetries ?svc)]"
    and b: "\<forall>c\<in>set calls. fst c \<le> length ([]::GenerativeModel list)"
    by blast
  from b have "filter (\<lambda>c. fst c = 0) calls = calls" by (simp add: filter_id_conv)
  with f have "calls = map (Pair 0) [0..<nat (maxRetries ?svc)]" by simp
  also have "\<dots> = [(0, 0), (0, 1), (0, 2)]"
    by (simp add: service_sel upt_rec)
  finally have "calls = [(0, 0), (0, 1), (0, 2)]" .
  with g code show ?thesis by (simp add: trim_examples)
qed

theorem generateAnswer_fallback_boundary_witness:
  "generateAnswer (service esInnerHits [modelBroken, modelOk] 3 False) reqZod =
     (fst (generateAnswer (service esInnerHits [modelBroken, modelOk] 3 False) reqZod),
      [(0, 0), (1, 0)])
   \<and> (\<exists>r. fst (generateAnswer (service esInnerHits [modelBroken, modelOk] 3 False) reqZod) =
         Fulfilled (Response r))"
proof -
  let ?svc = "service esInnerHits [modelBroken, modelOk] 3 False"
  let ?ctx = "Some (ctxZod [toSymbolMatch symParse])"
  have retr: "findRelevantCode (esClient ?svc) (packageName reqZod) (effectiveQuery reqZod)
      (effectiveMaxSnippets reqZod) = Fulfilled ?ctx"
    by (simp add: service_sel reqZod_query findRelevantCode_esInnerHits)
  have reach: "hasGroundedContext ?ctx \<or> allowUngroundedFallback ?svc"
    by (simp add: grounded_ctxZod)
  have ms: "models ?svc = modelBroken # modelOk # []" by (simp add: service_sel)
  have fail: "\<forall>k. \<exists>e. modelBroken k (sentPrompt reqZod ?ctx) = Rejected e \<and>
      \<not> isRetryableGeminiError e"
    by (simp add: modelBroken_def not_retryable_key)
  from generateAnswer_fallback_boundary [OF retr reach ms fail]
  obtain result tail where g: "generateAnswer ?svc reqZod = (result, (0, 0) # (1, 0) # tail)"
    by blast
  have ev: "\<exists>r. generateAnswer ?svc reqZod = (Fulfilled (Response r), [(0, 0), (1, 0)])"
    by (simp add: generateAnswer_def service_sel reqZod_query findRelevantCode_esInnerHits
        grounded_ctxZod Let_def attemptLoop.simps modelOk_def modelBroken_def not_retryable_key)
  with g have "tail = []" by auto
  with g ev show ?thesis by auto
qed

theorem snippet_truncated_witness:
  "(\<exists>c m. findRelevantCode esDocFallback ''zod'' ''parse'' 3 = Fulfilled (Some c) \<and>
       ctx_symbols c = [m] \<and> length (snippet m) \<le> 160 \<and> length (snippet m) = 160 \<and>
       sm_implementation m = Some (replicate 200 CHR ''x''))
   \<and> (\<exists>m. fetchSymbolContext esInnerHits ''zod@3.22.4'' ''parse'' 3 = Fulfilled [m] \<and>
       length (snippet m) \<le> 160 \<and> sm_implementation m = Some (replicate 200 CHR ''x''))"
proof -
  let ?m = "toSymbolMatch symParse"
  have r1: "findRelevantCode esDocFallback ''zod'' ''parse'' 3 = Fulfilled (Some (ctxZod [?m]))"
    by (rule findRelevantCode_esDocFallback)
  have r2: "fetchSymbolContext esInnerHits ''zod@3.22.4'' ''parse'' 3 = Fulfilled [?m]"
    by (simp add: fetchSymbolContext_def esInnerHits_def)
  note t = snippet_truncated [where es = esDocFallback and pkg = "''zod''" and q = "''parse''"
      and n = 3 and c = "ctxZod [?m]"]
  note t' = snippet_truncated [where es = esInnerHits and docId = "''zod@3.22.4''"
      and q = "''parse''" and n = 3 and ms = "[?m]"]
  from t r1 have "\<forall>m\<in>set (ctx_symbols (ctxZod [?m])). length (snippet m) \<le> 160" by blast
  then have a: "length (snippet ?m) \<le> 160" by (simp add: grounded_ctxZod)
  from t' r2 have "\<forall>m\<in>set [?m]. length (snippet m) \<le> 160" by blast
  then have b: "length (snippet ?m) \<le> 160" by simp
  have c: "length (snippet ?m) = 160" "sm_implementation ?m = Some (replicate 200 CHR ''x'')"
    by (simp_all add: symParse_match)
  from r1 a c have 1: "\<exists>c m. findRelevantCode esDocFallback ''zod'' ''parse'' 3 = Fulfilled (Some c) \<and>
       ctx_symbols c = [m] \<and> length (snippet m) \<le> 160 \<and> length (snippet m) = 160 \<and>
       sm_implementation m = Some (replicate 200 CHR ''x'')"
    by (intro exI [of _ "ctxZod [?m]"] exI [of _ ?m]) (simp add: grounded_ctxZod)
  from r2 b c have 2: "\<exists>m. fetchSymbolContext esInnerHits ''zod@3.22.4'' ''parse'' 3 = Fulfilled [m] \<and>
       length (snippet m) \<le> 160 \<and> sm_implementation m = Some (replicate 200 CHR ''x'')"
    by (intro exI [of _ ?m]) simp
  from 1 2 show ?thesis by simp
qed


end
